theory Spec2Isabelle
  imports Complex_Main
begin

section \<open>Credential vault: the encrypted envelope of configuration values\<close>

text \<open>
  PostgreSQL \<^verbatim>\<open>TEXT\<close> and \<^verbatim>\<open>BYTEA\<close> values are modelled as lists of bytes
  (\<^typ>\<open>string\<close>, the UTF-8 encoding of the text). Every built-in that can raise
  returns a sum, \<open>Inl\<close> carrying the error.
\<close>

datatype sql_error =
    AccessDenied
  | IntentNotFoundOrDenied
  | PaymentAlreadyProcessed string
  | StudentFeeNotFoundOrDenied
  | UniqueViolation string
  | NumericFieldOverflow
  | InvalidByteaSyntax
  | InvalidHexData
  | InvalidBase64Symbol
  | InvalidBase64End
  | InvalidUtf8Sequence

definition backslash :: char where
  "backslash = char_of (92::nat)"

definition newline :: char where
  "newline = char_of (10::nat)"

definition is_space :: "char \<Rightarrow> bool" where
  "is_space c \<longleftrightarrow> of_char c \<in> {32, 9, 10, 13::nat}"

definition hex_digit_val :: "char \<Rightarrow> nat option" where
  "hex_digit_val c =
     (let n = (of_char c :: nat) in
      if 48 \<le> n \<and> n \<le> 57 then Some (n - 48)
      else if 97 \<le> n \<and> n \<le> 102 then Some (n - 87)
      else if 65 \<le> n \<and> n \<le> 70 then Some (n - 55)
      else None)"

text \<open>The hex input format of \<^verbatim>\<open>bytea\<close> (what follows a leading \<^verbatim>\<open>\x\<close>):
  pairs of hex digits, white space allowed between the pairs.\<close>

fun hex_decode :: "string \<Rightarrow> sql_error + string" where
  "hex_decode [] = Inr []"
| "hex_decode [c] = (if is_space c then Inr [] else Inl InvalidHexData)"
| "hex_decode (c # d # s) =
     (if is_space c then hex_decode (d # s)
      else case (hex_digit_val c, hex_digit_val d) of
             (Some h, Some l) \<Rightarrow>
               (case hex_decode s of Inl e \<Rightarrow> Inl e
                | Inr bs \<Rightarrow> Inr (char_of (h * 16 + l) # bs))
           | _ \<Rightarrow> Inl InvalidHexData)"

definition octal_digit :: "nat \<Rightarrow> char \<Rightarrow> bool" where
  "octal_digit hi c \<longleftrightarrow> 48 \<le> (of_char c :: nat) \<and> (of_char c :: nat) \<le> 48 + hi"

text \<open>The escape input format of \<^verbatim>\<open>bytea\<close>: a byte other than the backslash stands
  for itself, \<^verbatim>\<open>\\\<close> is one backslash, \<^verbatim>\<open>\ooo\<close> (octal, at most 377) is
  that byte, and any other backslash is a syntax error.\<close>

fun escape_decode :: "string \<Rightarrow> sql_error + string" where
  "escape_decode [] = Inr []"
| "escape_decode (c # s) =
     (if c \<noteq> backslash then
        (case escape_decode s of Inl e \<Rightarrow> Inl e | Inr bs \<Rightarrow> Inr (c # bs))
      else
        (case s of
           d1 # d2 # d3 # s' \<Rightarrow>
             if octal_digit 3 d1 \<and> octal_digit 7 d2 \<and> octal_digit 7 d3 then
               (case escape_decode s' of Inl e \<Rightarrow> Inl e
                | Inr bs \<Rightarrow>
                    Inr (char_of ((of_char d1 - 48) * 64 + (of_char d2 - 48) * 8
                                  + (of_char d3 - (48::nat))) # bs))
             else if d1 = backslash then
               (case escape_decode (d2 # d3 # s') of Inl e \<Rightarrow> Inl e
                | Inr bs \<Rightarrow> Inr (backslash # bs))
             else Inl InvalidByteaSyntax
         | d1 # s' \<Rightarrow>
             if d1 = backslash then
               (case escape_decode s' of Inl e \<Rightarrow> Inl e
                | Inr bs \<Rightarrow> Inr (backslash # bs))
             else Inl InvalidByteaSyntax
         | [] \<Rightarrow> Inl InvalidByteaSyntax))"

text \<open>\<^verbatim>\<open>config_value::bytea\<close>: there is no binary cast from \<^verbatim>\<open>text\<close> to
  \<^verbatim>\<open>bytea\<close>, so the cast goes through the input function of \<^verbatim>\<open>bytea\<close>,
  which reads the text in the hex or the escape format.\<close>

definition text_to_bytea :: "string \<Rightarrow> sql_error + string" where
  "text_to_bytea t =
     (case t of
        c # d # s \<Rightarrow>
          if c = backslash \<and> d = CHR ''x'' then hex_decode s else escape_decode t
      | _ \<Rightarrow> escape_decode t)"

definition base64_alphabet :: string where
  "base64_alphabet = ''ABCDEFGHIJKLMNOPQRSTUVWXYZabcdefghijklmnopqrstuvwxyz0123456789+/''"

definition b64 :: "nat \<Rightarrow> char" where
  "b64 n = base64_alphabet ! (n mod 64)"

fun index_of :: "'a \<Rightarrow> 'a list \<Rightarrow> nat option" where
  "index_of x [] = None"
| "index_of x (y # ys) =
     (if x = y then Some 0 else map_option Suc (index_of x ys))"

definition b64lookup :: "char \<Rightarrow> nat option" where
  "b64lookup c = index_of c base64_alphabet"

text \<open>\<^verbatim>\<open>encode(_, 'base64')\<close>: three bytes give four symbols, the last group is
  padded with \<^verbatim>\<open>=\<close>, and a newline follows every 76 symbols (57 bytes).\<close>

fun base64_groups :: "string \<Rightarrow> string" where
  "base64_groups [] = []"
| "base64_groups [a] =
     (let n = of_char a * 65536 in
      [b64 (n div 262144), b64 (n div 4096), CHR ''='', CHR ''=''])"
| "base64_groups [a, b] =
     (let n = of_char a * 65536 + of_char b * 256 in
      [b64 (n div 262144), b64 (n div 4096), b64 (n div 64), CHR ''=''])"
| "base64_groups (a # b # c # s) =
     (let n = of_char a * 65536 + of_char b * 256 + of_char c in
      b64 (n div 262144) # b64 (n div 4096) # b64 (n div 64) # b64 n # base64_groups s)"

function base64_encode :: "string \<Rightarrow> string" where
  "base64_encode bs =
     (if 57 \<le> length bs
      then base64_groups (take 57 bs) @ [newline] @ base64_encode (drop 57 bs)
      else base64_groups bs)"
  by pat_completeness auto
termination
  by (relation "measure length") auto

declare base64_encode.simps [simp del]

text \<open>\<^verbatim>\<open>decode(_, 'base64')\<close>: white space is skipped, \<open>buf\<close> collects four
  symbols, \<open>fin\<close> remembers how many bytes the padded group holds.\<close>

fun base64_decode_loop :: "string \<Rightarrow> nat \<Rightarrow> nat \<Rightarrow> nat \<Rightarrow> sql_error + string" where
  "base64_decode_loop [] buf pos fin = (if pos \<noteq> 0 then Inl InvalidBase64End else Inr [])"
| "base64_decode_loop (c # s) buf pos fin =
     (if is_space c then base64_decode_loop s buf pos fin
      else
        case (if c = CHR ''='' then
                (if fin \<noteq> 0 then Inr (0, fin)
                 else if pos = 2 then Inr (0, 1)
                 else if pos = 3 then Inr (0, 2)
                 else Inl InvalidBase64End)
              else (case b64lookup c of None \<Rightarrow> Inl InvalidBase64Symbol
                    | Some b \<Rightarrow> Inr (b, fin))) of
          Inl e \<Rightarrow> Inl e
        | Inr (b, fin') \<Rightarrow>
            if pos = 3 then
              (case base64_decode_loop s 0 0 fin' of Inl e \<Rightarrow> Inl e
               | Inr bs \<Rightarrow>
                   Inr ([char_of ((buf * 64 + b) div 65536)]
                        @ (if fin' = 0 \<or> 1 < fin' then [char_of ((buf * 64 + b) div 256)] else [])
                        @ (if fin' = 0 \<or> 2 < fin' then [char_of (buf * 64 + b)] else [])
                        @ bs))
            else base64_decode_loop s (buf * 64 + b) (Suc pos) fin')"

definition base64_decode :: "string \<Rightarrow> sql_error + string" where
  "base64_decode s = base64_decode_loop s 0 0 0"

text \<open>\<^verbatim>\<open>convert_from(_, 'UTF8')\<close> checks that the bytes are legal UTF-8 without a
  zero byte and returns them as text.\<close>

definition in_range :: "nat \<Rightarrow> nat \<Rightarrow> char \<Rightarrow> bool" where
  "in_range lo hi c \<longleftrightarrow> lo \<le> (of_char c :: nat) \<and> (of_char c :: nat) \<le> hi"

fun valid_utf8 :: "string \<Rightarrow> bool" where
  "valid_utf8 [] = True"
| "valid_utf8 (a # s) =
     (if in_range 1 127 a then valid_utf8 s
      else if in_range 194 223 a then
        (case s of b # s' \<Rightarrow> in_range 128 191 b \<and> valid_utf8 s' | _ \<Rightarrow> False)
      else if in_range 224 239 a then
        (case s of
           b # c # s' \<Rightarrow>
             in_range (if of_char a = (224::nat) then 160 else 128)
                      (if of_char a = (237::nat) then 159 else 191) b
             \<and> in_range 128 191 c \<and> valid_utf8 s'
         | _ \<Rightarrow> False)
      else if in_range 240 244 a then
        (case s of
           b # c # d # s' \<Rightarrow>
             in_range (if of_char a = (240::nat) then 144 else 128)
                      (if of_char a = (244::nat) then 143 else 191) b
             \<and> in_range 128 191 c \<and> in_range 128 191 d \<and> valid_utf8 s'
         | _ \<Rightarrow> False)
      else False)"

definition convert_from_utf8 :: "string \<Rightarrow> sql_error + string" where
  "convert_from_utf8 bs = (if valid_utf8 bs then Inr bs else Inl InvalidUtf8Sequence)"

text \<open>\<^verbatim>\<open>encrypt_config_value\<close> and \<^verbatim>\<open>decrypt_config_value\<close>.\<close>

definition encrypt_config_value :: "string \<Rightarrow> sql_error + string" where
  "encrypt_config_value config_value =
     (case text_to_bytea config_value of
        Inl e \<Rightarrow> Inl e
      | Inr bs \<Rightarrow> Inr (''ENCRYPTED:'' @ base64_encode bs))"

definition decrypt_config_value :: "string \<Rightarrow> sql_error + string" where
  "decrypt_config_value encrypted_value =
     (if take 10 encrypted_value = ''ENCRYPTED:''
      then (case base64_decode (drop 10 encrypted_value) of
              Inl e \<Rightarrow> Inl e
            | Inr bs \<Rightarrow> convert_from_utf8 bs)
      else Inr encrypted_value)"


section \<open>The ledger tables\<close>

text \<open>
  Row identifiers (\<^verbatim>\<open>UUID\<close>) are natural numbers. A \<^verbatim>\<open>NUMERIC(10, 2)\<close> amount is
  the integer number of its hundredths, so that rupees with two decimals are exact; a
  value of that type has fewer than ten digits before rounding to the hundredth is
  needed, which \<open>fits_numeric_10_2\<close> checks where the source assigns to such a column
  or variable. Columns the engine never reads (dates, receipts, currency) are left out.
\<close>

type_synonym uuid = nat
type_synonym numeric = int

definition fits_numeric_10_2 :: "numeric \<Rightarrow> bool" where
  "fits_numeric_10_2 x \<longleftrightarrow> \<bar>x\<bar> < 10000000000"

datatype fee_status = Unpaid | PartiallyPaid | Paid

datatype intent_status = Created | IntentPaid | IntentFailed | Cancelled

datatype processing_status = Received | Processed | Failed

record payment_intent =
  pi_id :: uuid
  pi_razorpay_order_id :: string
  pi_student_fee_id :: uuid
  pi_school_id :: uuid
  pi_amount :: numeric
  pi_status :: intent_status
  pi_razorpay_payment_id :: "string option"
  pi_webhook_verified :: bool

record student_fee =
  sf_id :: uuid
  sf_school_id :: uuid
  sf_total_due :: numeric
  sf_amount_paid :: "numeric option"
  sf_status :: fee_status

record payment =
  pay_id :: uuid
  pay_student_fee_id :: uuid
  pay_school_id :: uuid
  pay_transaction_id :: "string option"
  pay_razorpay_order_id :: "string option"
  pay_amount :: numeric
  pay_payment_method :: string
  pay_is_webhook_verified :: bool

record school_configuration =
  sc_school_id :: uuid
  sc_config_key :: string
  sc_config_value :: string

record RazorpayPayment =
  rp_id :: string
  rp_order_id :: "string option"
  rp_amount :: int

record RazorpayWebhookPayload =
  wp_event :: string
  wp_payment_entity :: "RazorpayPayment option"

datatype log_payload =
    WebhookBody RazorpayWebhookPayload
  | ProcessedDetail string numeric uuid
  | ErrorDetail string numeric string

record webhook_log =
  wl_id :: uuid
  wl_school_id :: "uuid option"
  wl_webhook_event :: string
  wl_razorpay_signature :: "string option"
  wl_payload :: log_payload
  wl_signature_valid :: bool
  wl_processing_status :: processing_status
  wl_error_message :: "string option"

record database =
  payment_intents :: "payment_intent list"
  student_fees :: "student_fee list"
  payments :: "payment list"
  school_configurations :: "school_configuration list"
  webhook_logs :: "webhook_log list"

text \<open>\<^verbatim>\<open>gen_random_uuid()\<close> and \<^verbatim>\<open>crypto.randomUUID()\<close>: an identifier no row
  of the table has.\<close>

definition fresh_id :: "uuid list \<Rightarrow> uuid" where
  "fresh_id ids = Suc (fold max ids 0)"

fun sqlerrm :: "sql_error \<Rightarrow> string" where
  "sqlerrm AccessDenied = ''Access denied: Service role required''"
| "sqlerrm IntentNotFoundOrDenied = ''Payment intent not found or access denied''"
| "sqlerrm (PaymentAlreadyProcessed t) = ''Payment already processed: '' @ t"
| "sqlerrm StudentFeeNotFoundOrDenied = ''Student fee not found or access denied''"
| "sqlerrm (UniqueViolation i) = ''duplicate key value violates unique constraint '' @ i"
| "sqlerrm NumericFieldOverflow = ''numeric field overflow''"
| "sqlerrm InvalidByteaSyntax = ''invalid input syntax for type bytea''"
| "sqlerrm InvalidHexData = ''invalid hexadecimal data''"
| "sqlerrm InvalidBase64Symbol = ''invalid symbol found while decoding base64 sequence''"
| "sqlerrm InvalidBase64End = ''invalid base64 end sequence''"
| "sqlerrm InvalidUtf8Sequence = ''invalid byte sequence for encoding UTF8''"

text \<open>\<^verbatim>\<open>get_school_config\<close>: the first configuration row of the school under the
  key (\<open>None\<close> is SQL \<^verbatim>\<open>NULL\<close>, no such row), decrypted for the two sensitive keys.\<close>

definition get_school_config ::
  "string \<Rightarrow> database \<Rightarrow> uuid \<Rightarrow> string \<Rightarrow> sql_error + string option" where
  "get_school_config role db target_school_id config_key_name =
     (if role \<noteq> ''service_role'' then Inl AccessDenied
      else
        case find (\<lambda>sc. sc_school_id sc = target_school_id \<and> sc_config_key sc = config_key_name)
                  (school_configurations db) of
          None \<Rightarrow> Inr None
        | Some sc \<Rightarrow>
            if sc_config_key sc = ''razorpay_key_secret''
               \<or> sc_config_key sc = ''razorpay_webhook_secret''
            then (case decrypt_config_value (sc_config_value sc) of
                    Inl e \<Rightarrow> Inl e
                  | Inr v \<Rightarrow> Inr (Some v))
            else Inr (Some (sc_config_value sc)))"

section \<open>The atomic payment processing function\<close>

text \<open>\<^verbatim>\<open>INSERT INTO payments\<close>: the amount must fit the column, and the unique index
  \<^verbatim>\<open>idx_payments_razorpay_payment_id\<close> refuses a transaction id that a row already
  carries. The new row's id is returned.\<close>

definition insert_payment :: "payment \<Rightarrow> database \<Rightarrow> sql_error + uuid \<times> database" where
  "insert_payment row db =
     (if \<not> fits_numeric_10_2 (pay_amount row) then Inl NumericFieldOverflow
      else if pay_transaction_id row \<noteq> None
              \<and> pay_transaction_id row \<in> set (map pay_transaction_id (payments db))
      then Inl (UniqueViolation ''idx_payments_razorpay_payment_id'')
      else
        let new_id = fresh_id (map pay_id (payments db))
        in Inr (new_id, db\<lparr>payments := payments db @ [row\<lparr>pay_id := new_id\<rparr>]\<rparr>))"

definition insert_webhook_log :: "webhook_log \<Rightarrow> database \<Rightarrow> database" where
  "insert_webhook_log row db =
     db\<lparr>webhook_logs :=
          webhook_logs db @ [row\<lparr>wl_id := fresh_id (map wl_id (webhook_logs db))\<rparr>]\<rparr>"

definition new_status :: "numeric \<Rightarrow> numeric \<Rightarrow> fee_status" where
  "new_status v_new_amount_paid v_total_due =
     (if v_new_amount_paid \<ge> v_total_due then Paid
      else if v_new_amount_paid > 0 then PartiallyPaid
      else Unpaid)"

text \<open>
  The body of \<^verbatim>\<open>process_payment_webhook\<close> between \<^verbatim>\<open>BEGIN\<close> and
  \<^verbatim>\<open>RETURN\<close>. \<open>at_row_lock\<close> is what other transactions commit while this one
  waits for the row lock of \<^verbatim>\<open>FOR UPDATE\<close> (the identity when nothing runs
  beside it); every statement after the lock sees it. On an exception the result is
  \<open>Inl (e, s)\<close> with \<open>s\<close> the database without any write of this call.
\<close>

definition process_payment_webhook_body ::
  "string \<Rightarrow> (database \<Rightarrow> database) \<Rightarrow> uuid \<Rightarrow> string \<Rightarrow> numeric \<Rightarrow> uuid \<Rightarrow> database
   \<Rightarrow> sql_error \<times> database + uuid \<times> database" where
  "process_payment_webhook_body role at_row_lock p_payment_intent_id p_razorpay_payment_id
      p_amount_paid p_school_id db =
     (if role \<noteq> ''service_role'' then Inl (AccessDenied, db)
      else
        (case find (\<lambda>i. pi_id i = p_payment_intent_id \<and> pi_school_id i = p_school_id)
                  (payment_intents db) of
          None \<Rightarrow> Inl (IntentNotFoundOrDenied, db)
        | Some intent \<Rightarrow>
        (let v_student_fee_id = pi_student_fee_id intent in
        (case find (\<lambda>p. pay_transaction_id p = Some p_razorpay_payment_id) (payments db) of
          Some dup \<Rightarrow> Inl (PaymentAlreadyProcessed p_razorpay_payment_id, db)
        | None \<Rightarrow>
        (let locked = at_row_lock db in
        (case find (\<lambda>f. sf_id f = v_student_fee_id \<and> sf_school_id f = p_school_id)
                  (student_fees locked) of
          None \<Rightarrow> Inl (StudentFeeNotFoundOrDenied, locked)
        | Some fee \<Rightarrow>
        (case sf_amount_paid fee of
          None \<Rightarrow> Inl (StudentFeeNotFoundOrDenied, locked)
        | Some v_current_amount_paid \<Rightarrow>
        (let v_total_due = sf_total_due fee;
            v_new_amount_paid = v_current_amount_paid + p_amount_paid
        in
        (if \<not> fits_numeric_10_2 v_new_amount_paid then Inl (NumericFieldOverflow, locked)
        else
        (let v_new_status = new_status v_new_amount_paid v_total_due in
        (case insert_payment
               \<lparr>pay_id = 0,
                pay_student_fee_id = v_student_fee_id,
                pay_school_id = p_school_id,
                pay_transaction_id = Some p_razorpay_payment_id,
                pay_razorpay_order_id =
                  map_option pi_razorpay_order_id
                    (find (\<lambda>i. pi_id i = p_payment_intent_id) (payment_intents locked)),
                pay_amount = p_amount_paid,
                pay_payment_method = ''Online'',
                pay_is_webhook_verified = True\<rparr> locked of
          Inl e \<Rightarrow> Inl (e, locked)
        | Inr (v_payment_id, db1) \<Rightarrow>
        (let db2 = db1\<lparr>student_fees :=
                    map (\<lambda>f. if sf_id f = v_student_fee_id
                              then f\<lparr>sf_amount_paid := Some v_new_amount_paid,
                                     sf_status := v_new_status\<rparr>
                              else f) (student_fees db1)\<rparr>;
            db3 = db2\<lparr>payment_intents :=
                    map (\<lambda>i. if pi_id i = p_payment_intent_id
                              then i\<lparr>pi_status := IntentPaid,
                                     pi_razorpay_payment_id := Some p_razorpay_payment_id,
                                     pi_webhook_verified := True\<rparr>
                              else i) (payment_intents db2)\<rparr>;
            db4 = insert_webhook_log
                    \<lparr>wl_id = 0,
                     wl_school_id = Some p_school_id,
                     wl_webhook_event = ''payment.captured'',
                     wl_razorpay_signature = None,
                     wl_payload = ProcessedDetail p_razorpay_payment_id p_amount_paid
                                    v_student_fee_id,
                     wl_signature_valid = True,
                     wl_processing_status = Processed,
                     wl_error_message = None\<rparr> db3
        in Inr (v_payment_id, db4)))))))))))))"

text \<open>
  The whole function, with its \<^verbatim>\<open>EXCEPTION WHEN OTHERS\<close> block: the writes of the
  body are undone, a failed log row is inserted, and the exception is raised again.
  \<open>Inl (e, s, w)\<close>: \<open>e\<close> leaves the function, \<open>w\<close> is the database as this
  transaction sees it at that moment (with the handler's log row), \<open>s\<close> the database
  without any write of this transaction.
\<close>

definition process_payment_webhook ::
  "string \<Rightarrow> (database \<Rightarrow> database) \<Rightarrow> uuid \<Rightarrow> string \<Rightarrow> numeric \<Rightarrow> uuid \<Rightarrow> database
   \<Rightarrow> sql_error \<times> database \<times> database + uuid \<times> database" where
  "process_payment_webhook role at_row_lock p_payment_intent_id p_razorpay_payment_id
      p_amount_paid p_school_id db =
     (case process_payment_webhook_body role at_row_lock p_payment_intent_id
             p_razorpay_payment_id p_amount_paid p_school_id db of
        Inr r \<Rightarrow> Inr r
      | Inl (e, s) \<Rightarrow>
          Inl (e, s,
               insert_webhook_log
                 \<lparr>wl_id = 0,
                  wl_school_id = Some p_school_id,
                  wl_webhook_event = ''payment.captured'',
                  wl_razorpay_signature = None,
                  wl_payload = ErrorDetail p_razorpay_payment_id p_amount_paid (sqlerrm e),
                  wl_signature_valid = True,
                  wl_processing_status = Failed,
                  wl_error_message = Some (sqlerrm e)\<rparr> s))"

text \<open>
  The call \<^verbatim>\<open>supabaseAdmin.rpc('process_payment_webhook', ...)\<close>: one statement in
  one transaction. When the function returns, its writes are committed; when an
  exception leaves it, the transaction is aborted and nothing it wrote remains.
\<close>

definition rpc_process_payment_webhook ::
  "string \<Rightarrow> (database \<Rightarrow> database) \<Rightarrow> uuid \<Rightarrow> string \<Rightarrow> numeric \<Rightarrow> uuid \<Rightarrow> database
   \<Rightarrow> (sql_error + uuid) \<times> database" where
  "rpc_process_payment_webhook role at_row_lock p_payment_intent_id p_razorpay_payment_id
      p_amount_paid p_school_id db =
     (case process_payment_webhook role at_row_lock p_payment_intent_id
             p_razorpay_payment_id p_amount_paid p_school_id db of
        Inr (v_payment_id, db') \<Rightarrow> (Inr v_payment_id, db')
      | Inl (e, s, w) \<Rightarrow> (Inl e, s))"


section \<open>The captured amount on its way to the atomic function\<close>








section \<open>The webhook handler\<close>

datatype payment_ref = RowId uuid | GatewayRef "string option"

record response =
  http_status :: nat
  success :: bool
  message :: string
  paymentId :: "payment_ref option"

definition errorResponse :: "string \<Rightarrow> nat \<Rightarrow> response" where
  "errorResponse msg status =
     \<lparr>http_status = status, success = False, message = msg, paymentId = None\<rparr>"

definition successResponse :: "string \<Rightarrow> payment_ref option \<Rightarrow> response" where
  "successResponse msg ref =
     \<lparr>http_status = 200, success = True, message = msg, paymentId = ref\<rparr>"

text \<open>
  \<^verbatim>\<open>verifyWebhookSignature\<close>. The platform's HMAC-SHA256 is the parameter
  \<open>hmac\<close>, from the secret and the message to the digest, \<open>None\<close> when
  \<^verbatim>\<open>crypto.subtle\<close> throws; the \<^verbatim>\<open>catch\<close> turns that into \<open>False\<close>.
\<close>

definition hex_char :: "nat \<Rightarrow> char" where
  "hex_char n = ''0123456789abcdef'' ! (n mod 16)"

definition hex_encode :: "string \<Rightarrow> string" where
  "hex_encode bs = concat (map (\<lambda>b. [hex_char (of_char b div 16), hex_char (of_char b)]) bs)"

definition verifyWebhookSignature ::
  "(string \<Rightarrow> string \<Rightarrow> string option) \<Rightarrow> string \<Rightarrow> string \<Rightarrow> string \<Rightarrow> bool" where
  "verifyWebhookSignature hmac payload signature secret =
     (case hmac secret payload of
        None \<Rightarrow> False
      | Some signatureBuffer \<Rightarrow>
          (let computedSignature = hex_encode signatureBuffer
           in computedSignature = signature))"

text \<open>
  \<^verbatim>\<open>await req.text()\<close> decodes the bytes of the request body as UTF-8: a leading
  byte-order mark is dropped and every malformed sequence is replaced by U+FFFD (one
  replacement for the longest prefix of a sequence that is well formed, the byte that
  breaks it being read again). \<^verbatim>\<open>JSON.parse\<close> and
  \<^verbatim>\<open>new TextEncoder().encode\<close> then work on the resulting string. A string obtained
  that way is represented by its UTF-8 bytes, which are what \<^verbatim>\<open>encode\<close> returns.
\<close>

definition byte_order_mark :: string where
  "byte_order_mark = [char_of (239::nat), char_of (187::nat), char_of (191::nat)]"

definition replacement_character :: string where
  "replacement_character = [char_of (239::nat), char_of (191::nat), char_of (189::nat)]"

fun utf8_decode :: "string \<Rightarrow> string" where
  "utf8_decode [] = []"
| "utf8_decode (a # s) =
     (if in_range 0 127 a then a # utf8_decode s
      else if in_range 194 223 a then
        (case s of
           [] \<Rightarrow> replacement_character
         | b # s1 \<Rightarrow>
             (if in_range 128 191 b then a # b # utf8_decode s1
              else replacement_character @ utf8_decode s))
      else if in_range 224 239 a then
        (case s of
           [] \<Rightarrow> replacement_character
         | b # s1 \<Rightarrow>
             (if in_range (if of_char a = (224::nat) then 160 else 128)
                          (if of_char a = (237::nat) then 159 else 191) b
              then (case s1 of
                      [] \<Rightarrow> replacement_character
                    | c # s2 \<Rightarrow>
                        (if in_range 128 191 c then a # b # c # utf8_decode s2
                         else replacement_character @ utf8_decode s1))
              else replacement_character @ utf8_decode s))
      else if in_range 240 244 a then
        (case s of
           [] \<Rightarrow> replacement_character
         | b # s1 \<Rightarrow>
             (if in_range (if of_char a = (240::nat) then 144 else 128)
                          (if of_char a = (244::nat) then 143 else 191) b
              then (case s1 of
                      [] \<Rightarrow> replacement_character
                    | c # s2 \<Rightarrow>
                        (if in_range 128 191 c
                         then (case s2 of
                                 [] \<Rightarrow> replacement_character
                               | d # s3 \<Rightarrow>
                                   (if in_range 128 191 d then a # b # c # d # utf8_decode s3
                                    else replacement_character @ utf8_decode s2))
                         else replacement_character @ utf8_decode s1))
              else replacement_character @ utf8_decode s))
      else replacement_character @ utf8_decode s)"

definition req_text :: "string \<Rightarrow> string" where
  "req_text body =
     utf8_decode (if take 3 body = byte_order_mark then drop 3 body else body)"

text \<open>
  A request is the bytes of its body as they were received and its \<^verbatim>\<open>x-razorpay-signature\<close> header;
  \<^verbatim>\<open>JSON.parse\<close> is the parameter \<open>parse\<close> (\<open>None\<close> when it throws). The
  handler's calls to the credential vault and to the signature verifier are recorded,
  in order, in the third component of its result.
\<close>

record request =
  raw_body :: string
  x_razorpay_signature :: "string option"

datatype call =
    VaultGet uuid string
  | SignatureVerify string string string

text \<open>What other transactions commit beside one notification: between the handler's
  idempotency lookup and its call of the atomic function, and while that function
  waits for the row lock. A notification processed alone has the identity for both.\<close>

record interleaving =
  before_rpc :: "database \<Rightarrow> database"
  at_row_lock :: "database \<Rightarrow> database"

definition alone :: interleaving where
  "alone = \<lparr>before_rpc = (\<lambda>db. db), at_row_lock = (\<lambda>db. db)\<rparr>"

definition single :: "'a list \<Rightarrow> 'a option" where
  "single rows = (case rows of [r] \<Rightarrow> Some r | _ \<Rightarrow> None)"

definition set_log_status :: "uuid \<Rightarrow> processing_status \<Rightarrow> database \<Rightarrow> database" where
  "set_log_status log_id st db =
     db\<lparr>webhook_logs :=
          map (\<lambda>l. if wl_id l = log_id then l\<lparr>wl_processing_status := st\<rparr> else l)
              (webhook_logs db)\<rparr>"

definition set_log_failed :: "uuid \<Rightarrow> string \<Rightarrow> database \<Rightarrow> database" where
  "set_log_failed log_id msg db =
     db\<lparr>webhook_logs :=
          map (\<lambda>l. if wl_id l = log_id
                    then l\<lparr>wl_processing_status := Failed, wl_error_message := Some msg\<rparr>
                    else l)
              (webhook_logs db)\<rparr>"

definition extract_order_id :: "RazorpayWebhookPayload \<Rightarrow> string option" where
  "extract_order_id webhookPayload =
     (if wp_event webhookPayload = ''payment.captured''
      then (case wp_payment_entity webhookPayload of
              Some entity \<Rightarrow> rp_order_id entity
            | None \<Rightarrow> None)
      else None)"

text \<open>The branch of \<^verbatim>\<open>handleWebhook\<close> for a verified
  \<^verbatim>\<open>payment.captured\<close> event (from the idempotency check on). The argument
  \<^verbatim>\<open>p_amount_paid\<close> of the atomic function counts hundredths: it is
  \<open>rp_amount payment\<close>, the value that \<^verbatim>\<open>payment.amount / 100\<close> has once it is in
  the function's \<^verbatim>\<open>NUMERIC(10, 2)\<close> variables (see the section before this
  one).\<close>

definition handle_payment_captured ::
  "interleaving \<Rightarrow> RazorpayPayment \<Rightarrow> uuid \<Rightarrow> uuid \<Rightarrow> database \<Rightarrow> response \<times> database" where
  "handle_payment_captured ilv payment schoolId webhookLogId db =
     (case single (filter (\<lambda>p. pay_transaction_id p = Some (rp_id payment)) (payments db)) of
        Some existingPayment \<Rightarrow>
          (successResponse ''Payment already processed'' None,
           set_log_status webhookLogId Processed db)
      | None \<Rightarrow>
        (case (case rp_order_id payment of
                None \<Rightarrow> None
              | Some order_id \<Rightarrow>
                  single (filter (\<lambda>i. pi_razorpay_order_id i = order_id) (payment_intents db))) of
          None \<Rightarrow>
            (errorResponse ''Payment intent not found'' 400,
             set_log_failed webhookLogId ''Payment intent not found'' db)
        | Some fullIntentData \<Rightarrow>
          (case rpc_process_payment_webhook ''service_role'' (at_row_lock ilv)
                 (pi_id fullIntentData) (rp_id payment) (rp_amount payment) schoolId
                 (before_rpc ilv db) of
            (Inl transactionError, db') \<Rightarrow>
              (errorResponse ''Payment processing failed'' 500,
               set_log_failed webhookLogId
                 (''Transaction failed: '' @ sqlerrm transactionError) db')
          | (Inr transactionResult, db') \<Rightarrow>
              (successResponse ''Payment processed successfully'' (Some (RowId transactionResult)),
               set_log_status webhookLogId Processed db'))))"

definition handleWebhook ::
  "(string \<Rightarrow> RazorpayWebhookPayload option) \<Rightarrow> (string \<Rightarrow> string \<Rightarrow> string option)
   \<Rightarrow> interleaving \<Rightarrow> request \<Rightarrow> database \<Rightarrow> response \<times> database \<times> call list" where
  "handleWebhook parse hmac ilv req db =
     (let rawPayload = req_text (raw_body req) in
     (case parse rawPayload of
        None \<Rightarrow> (errorResponse ''Webhook processing failed'' 500, db, [])
      | Some webhookPayload \<Rightarrow>
        (case x_razorpay_signature req of
          None \<Rightarrow> (errorResponse ''Missing webhook signature'' 400, db, [])
        | Some signature \<Rightarrow>
        (if signature = [] then (errorResponse ''Missing webhook signature'' 400, db, [])
        else
        (case extract_order_id webhookPayload of
          None \<Rightarrow> (errorResponse ''Invalid webhook payload'' 400, db, [])
        | Some orderId \<Rightarrow>
        (if orderId = [] then (errorResponse ''Invalid webhook payload'' 400, db, [])
        else
        (case single (filter (\<lambda>i. pi_razorpay_order_id i = orderId) (payment_intents db)) of
          None \<Rightarrow> (errorResponse ''Payment intent not found'' 400, db, [])
        | Some intentData \<Rightarrow>
        (let schoolId = pi_school_id intentData;
            vault = [VaultGet schoolId ''razorpay_webhook_secret'']
        in
        (case (case get_school_config ''service_role'' db schoolId ''razorpay_webhook_secret'' of
                Inl secretError \<Rightarrow> None
              | Inr None \<Rightarrow> None
              | Inr (Some v) \<Rightarrow> if v = [] then None else Some v) of
          None \<Rightarrow>
            (errorResponse ''Webhook secret configuration error'' 500,
             insert_webhook_log
               \<lparr>wl_id = 0,
                wl_school_id = Some schoolId,
                wl_webhook_event = wp_event webhookPayload,
                wl_razorpay_signature = Some signature,
                wl_payload = WebhookBody webhookPayload,
                wl_signature_valid = False,
                wl_processing_status = Failed,
                wl_error_message = Some ''Webhook secret not found''\<rparr> db,
             vault)
        | Some webhookSecret \<Rightarrow>
        (let isValidSignature =
              verifyWebhookSignature hmac rawPayload signature webhookSecret;
            calls = vault @ [SignatureVerify rawPayload signature webhookSecret];
            webhookLogId = fresh_id (map wl_id (webhook_logs db));
            db1 = db\<lparr>webhook_logs := webhook_logs db @
                    [\<lparr>wl_id = webhookLogId,
                      wl_school_id = Some schoolId,
                      wl_webhook_event = wp_event webhookPayload,
                      wl_razorpay_signature = Some signature,
                      wl_payload = WebhookBody webhookPayload,
                      wl_signature_valid = isValidSignature,
                      wl_processing_status = Received,
                      wl_error_message = None\<rparr>]\<rparr>
        in
        (if \<not> isValidSignature then
          (errorResponse ''Invalid webhook signature'' 400,
           set_log_failed webhookLogId ''Invalid webhook signature'' db1,
           calls)
        else if wp_event webhookPayload = ''payment.captured'' then
          (case wp_payment_entity webhookPayload of
             None \<Rightarrow> (errorResponse ''Webhook processing failed'' 500, db1, calls)
           | Some payment \<Rightarrow>
               (case handle_payment_captured ilv payment schoolId webhookLogId db1 of
                  (resp, db') \<Rightarrow> (resp, db', calls)))
        else (successResponse ''Webhook received'' None, db1, calls))))))))))))"

text \<open>
  Notifications processed one after another, each alone: every request is one run of
  the handler on the database the run before it left.
\<close>

fun process_notifications ::
  "(string \<Rightarrow> RazorpayWebhookPayload option) \<Rightarrow> (string \<Rightarrow> string \<Rightarrow> string option)
   \<Rightarrow> request list \<Rightarrow> database \<Rightarrow> response list \<times> database" where
  "process_notifications parse hmac [] db = ([], db)"
| "process_notifications parse hmac (req # reqs) db =
     (case handleWebhook parse hmac alone req db of
        (resp, db', calls) \<Rightarrow>
          (case process_notifications parse hmac reqs db' of
             (resps, db'') \<Rightarrow> (resp # resps, db'')))"

text \<open>
  A capture notification of the transaction \<open>tid\<close> that passes the first four steps
  on \<open>db\<close>: it carries a signature, its order resolves to an intent, the intent's school
  has a webhook secret, and the signature verifies under that secret.
\<close>

definition capture_accepted ::
  "(string \<Rightarrow> RazorpayWebhookPayload option) \<Rightarrow> (string \<Rightarrow> string \<Rightarrow> string option)
   \<Rightarrow> database \<Rightarrow> string \<Rightarrow> request \<Rightarrow> bool" where
  "capture_accepted parse hmac db tid req \<longleftrightarrow>
     (\<exists>sg pay oid intent secret.
        parse (req_text (raw_body req))
          = Some \<lparr>wp_event = ''payment.captured'', wp_payment_entity = Some pay\<rparr>
      \<and> x_razorpay_signature req = Some sg \<and> sg \<noteq> []
      \<and> rp_id pay = tid \<and> rp_order_id pay = Some oid \<and> oid \<noteq> []
      \<and> single (filter (\<lambda>i. pi_razorpay_order_id i = oid) (payment_intents db)) = Some intent
      \<and> get_school_config ''service_role'' db (pi_school_id intent) ''razorpay_webhook_secret''
          = Inr (Some secret)
      \<and> secret \<noteq> []
      \<and> verifyWebhookSignature hmac (req_text (raw_body req)) sg secret)"

section \<open>The direct verification path\<close>

record VerifyPaymentRequest =
  razorpayOrderId :: string
  razorpayPaymentId :: string
  razorpaySignature :: string

fun join_comma :: "string list \<Rightarrow> string" where
  "join_comma [] = []"
| "join_comma [x] = x"
| "join_comma (x # y # zs) = x @ '', '' @ join_comma (y # zs)"

text \<open>
  \<^verbatim>\<open>handleDirectVerification\<close>. A field of the request that is absent is the
  empty string. After the intent and the school's \<^verbatim>\<open>razorpay_key_secret\<close> have been
  found, the function calls \<^verbatim>\<open>verifyRazorpaySignature\<close>. That name occurs nowhere
  else in the module: it is neither defined nor imported, so evaluating the call throws
  a \<^verbatim>\<open>ReferenceError\<close>, which the function's own \<^verbatim>\<open>catch\<close> answers with
  status 500 and the error's message. The statements that follow the call in the source
  (the test of the intent's status, the update of the intent, the insert of the payment
  and the update of the fee record) are therefore never reached.
\<close>

datatype js_error = ReferenceError string

fun error_message :: "js_error \<Rightarrow> string" where
  "error_message (ReferenceError name) = name @ '' is not defined''"

definition verifyRazorpaySignature :: "string \<Rightarrow> string \<Rightarrow> string \<Rightarrow> string \<Rightarrow> js_error" where
  "verifyRazorpaySignature order_id payment_id signature secret =
     ReferenceError ''verifyRazorpaySignature''"

definition handleDirectVerification ::
  "VerifyPaymentRequest \<Rightarrow> database \<Rightarrow> response \<times> database" where
  "handleDirectVerification requestData db =
     (let missingFields =
            map fst (filter (\<lambda>(field, v). v = [])
              [(''razorpayOrderId'', razorpayOrderId requestData),
               (''razorpayPaymentId'', razorpayPaymentId requestData),
               (''razorpaySignature'', razorpaySignature requestData)])
      in
      (if missingFields \<noteq> [] then
        (errorResponse (''Missing required fields: '' @ join_comma missingFields) 400, db)
      else
      (case single (filter (\<lambda>i. pi_razorpay_order_id i = razorpayOrderId requestData)
                     (payment_intents db)) of
        None \<Rightarrow> (errorResponse ''Payment intent not found'' 400, db)
      | Some intentData \<Rightarrow>
      (case find (\<lambda>c. sc_config_key c = ''razorpay_key_secret'')
             (filter (\<lambda>c. sc_school_id c = pi_school_id intentData)
                (school_configurations db)) of
        None \<Rightarrow> (errorResponse ''Razorpay configuration not found'' 400, db)
      | Some config \<Rightarrow>
      (let razorpaySecret = sc_config_value config;
           error = verifyRazorpaySignature (razorpayOrderId requestData)
                     (razorpayPaymentId requestData) (razorpaySignature requestData)
                     razorpaySecret
       in (errorResponse (''Payment verification failed: '' @ error_message error) 500,
           db))))))"


section \<open>Example data\<close>

text \<open>One school (id 3) with its two secrets, one fee record of 82000.00 with nothing
  paid, and one order of 40000.00 against it; a capture notification of that order and
  a signing function that returns a fixed digest for the school's secret and that body.\<close>

definition example_db :: database where
  "example_db =
     \<lparr>payment_intents =
        [\<lparr>pi_id = 1, pi_razorpay_order_id = ''order_A'', pi_student_fee_id = 7,
          pi_school_id = 3, pi_amount = 4000000, pi_status = Created,
          pi_razorpay_payment_id = None, pi_webhook_verified = False\<rparr>],
      student_fees =
        [\<lparr>sf_id = 7, sf_school_id = 3, sf_total_due = 8200000, sf_amount_paid = Some 0,
          sf_status = Unpaid\<rparr>],
      payments = [],
      school_configurations =
        [\<lparr>sc_school_id = 3, sc_config_key = ''razorpay_webhook_secret'',
          sc_config_value = ''ENCRYPTED:aGVsbA==''\<rparr>,
         \<lparr>sc_school_id = 3, sc_config_key = ''razorpay_key_secret'',
          sc_config_value = ''key''\<rparr>],
      webhook_logs = []\<rparr>"

definition example_intent :: payment_intent where
  "example_intent =
     \<lparr>pi_id = 1, pi_razorpay_order_id = ''order_A'', pi_student_fee_id = 7,
      pi_school_id = 3, pi_amount = 4000000, pi_status = Created,
      pi_razorpay_payment_id = None, pi_webhook_verified = False\<rparr>"

definition example_fee :: student_fee where
  "example_fee =
     \<lparr>sf_id = 7, sf_school_id = 3, sf_total_due = 8200000, sf_amount_paid = Some 0,
      sf_status = Unpaid\<rparr>"

definition example_payment :: RazorpayPayment where
  "example_payment = \<lparr>rp_id = ''pay_1'', rp_order_id = Some ''order_A'', rp_amount = 4000000\<rparr>"

definition example_parse :: "string \<Rightarrow> RazorpayWebhookPayload option" where
  "example_parse body =
     (if body = ''captured pay_1 order_A 4000000'' then
        Some \<lparr>wp_event = ''payment.captured'', wp_payment_entity = Some example_payment\<rparr>
      else if body = ''captured pay_2 order_X 4000000'' then
        Some \<lparr>wp_event = ''payment.captured'',
              wp_payment_entity =
                Some \<lparr>rp_id = ''pay_2'', rp_order_id = Some ''order_X'', rp_amount = 4000000\<rparr>\<rparr>
      else if body = ''captured'' then
        Some \<lparr>wp_event = ''payment.captured'', wp_payment_entity = None\<rparr>
      else None)"

definition example_hmac :: "string \<Rightarrow> string \<Rightarrow> string option" where
  "example_hmac secret payload =
     (if secret = [] then None
      else Some [char_of (length payload), char_of (length secret)])"

definition example_request :: request where
  "example_request =
     \<lparr>raw_body = ''captured pay_1 order_A 4000000'', x_razorpay_signature = Some ''1e04''\<rparr>"

text \<open>A second delivery of the same payment whose transaction commits while the first
  waits for the row lock.\<close>

definition example_race :: interleaving where
  "example_race =
     \<lparr>before_rpc = (\<lambda>db. db),
      at_row_lock =
        (\<lambda>db. snd (rpc_process_payment_webhook ''service_role'' (\<lambda>d. d) 1 ''pay_1'' 4000000 3 db))\<rparr>"

text \<open>The ledger after that payment has been applied by the atomic function, \<open>logs\<close>
  being the log rows there were before.\<close>

definition example_db_after_first :: "webhook_log list \<Rightarrow> database" where
  "example_db_after_first logs =
     example_db
       \<lparr>payment_intents :=
          [example_intent\<lparr>pi_status := IntentPaid, pi_razorpay_payment_id := Some ''pay_1'',
                          pi_webhook_verified := True\<rparr>],
        student_fees :=
          [example_fee\<lparr>sf_amount_paid := Some 4000000, sf_status := PartiallyPaid\<rparr>],
        payments :=
          [\<lparr>pay_id = 1, pay_student_fee_id = 7, pay_school_id = 3,
            pay_transaction_id = Some ''pay_1'', pay_razorpay_order_id = Some ''order_A'',
            pay_amount = 4000000, pay_payment_method = ''Online'',
            pay_is_webhook_verified = True\<rparr>],
        webhook_logs :=
          logs @
          [\<lparr>wl_id = fresh_id (map wl_id logs), wl_school_id = Some 3,
            wl_webhook_event = ''payment.captured'', wl_razorpay_signature = None,
            wl_payload = ProcessedDetail ''pay_1'' 4000000 7,
            wl_signature_valid = True, wl_processing_status = Processed,
            wl_error_message = None\<rparr>]\<rparr>"


text \<open>A client-side confirmation of the same order and payment.\<close>

definition example_direct_request :: VerifyPaymentRequest where
  "example_direct_request =
     \<lparr>razorpayOrderId = ''order_A'', razorpayPaymentId = ''pay_1'', razorpaySignature = ''sig''\<rparr>"

text \<open>The example notification sent with a byte-order mark before its text.\<close>

definition example_request_bom :: request where
  "example_request_bom =
     \<lparr>raw_body = byte_order_mark @ ''captured pay_1 order_A 4000000'',
      x_razorpay_signature = Some ''1e04''\<rparr>"

section \<open>Auxiliary facts\<close>

text \<open>The decoding of the request body.\<close>

lemma in_range_weaken: "in_range 1 127 a \<Longrightarrow> in_range 0 127 a"
  by (simp add: in_range_def)

lemma utf8_classes:
  "in_range 194 223 a \<Longrightarrow> \<not> in_range 0 127 a"
  "in_range 224 239 a \<Longrightarrow> \<not> in_range 0 127 a \<and> \<not> in_range 194 223 a"
  "in_range 240 244 a \<Longrightarrow>
     \<not> in_range 0 127 a \<and> \<not> in_range 194 223 a \<and> \<not> in_range 224 239 a"
  by (simp_all add: in_range_def)

lemma utf8_decode_one: "in_range 0 127 a \<Longrightarrow> utf8_decode (a # s) = a # utf8_decode s"
  by simp

lemma utf8_decode_two:
  "in_range 194 223 a \<Longrightarrow> in_range 128 191 b
   \<Longrightarrow> utf8_decode (a # b # s) = a # b # utf8_decode s"
  using utf8_classes(1) [of a] by simp

lemma utf8_decode_three:
  "in_range 224 239 a
   \<Longrightarrow> in_range (if of_char a = (224::nat) then 160 else 128)
                (if of_char a = (237::nat) then 159 else 191) b
   \<Longrightarrow> in_range 128 191 c
   \<Longrightarrow> utf8_decode (a # b # c # s) = a # b # c # utf8_decode s"
  using utf8_classes(2) [of a] by simp

lemma utf8_decode_four:
  "in_range 240 244 a
   \<Longrightarrow> in_range (if of_char a = (240::nat) then 144 else 128)
                (if of_char a = (244::nat) then 143 else 191) b
   \<Longrightarrow> in_range 128 191 c \<Longrightarrow> in_range 128 191 d
   \<Longrightarrow> utf8_decode (a # b # c # d # s) = a # b # c # d # utf8_decode s"
  using utf8_classes(3) [of a] by simp

lemma valid_utf8_cases:
  assumes "valid_utf8 (a # s)"
  obtains (one) "in_range 1 127 a" "valid_utf8 s"
    | (two) b s' where "in_range 194 223 a" "s = b # s'" "in_range 128 191 b" "valid_utf8 s'"
    | (three) b c s' where "in_range 224 239 a" "s = b # c # s'"
        "in_range (if of_char a = (224::nat) then 160 else 128)
                  (if of_char a = (237::nat) then 159 else 191) b"
        "in_range 128 191 c" "valid_utf8 s'"
    | (four) b c d s' where "in_range 240 244 a" "s = b # c # d # s'"
        "in_range (if of_char a = (240::nat) then 144 else 128)
                  (if of_char a = (244::nat) then 143 else 191) b"
        "in_range 128 191 c" "in_range 128 191 d" "valid_utf8 s'"
proof (cases "in_range 1 127 a")
  case True
  with assms one show ?thesis
    by simp
next
  case n1: False
  show ?thesis
  proof (cases "in_range 194 223 a")
    case True
    with assms n1 have "case s of b # s' \<Rightarrow> in_range 128 191 b \<and> valid_utf8 s' | _ \<Rightarrow> False"
      by simp
    then obtain b s' where "s = b # s'" "in_range 128 191 b" "valid_utf8 s'"
      by (cases s) simp_all
    with True two show ?thesis
      by blast
  next
    case n2: False
    show ?thesis
    proof (cases "in_range 224 239 a")
      case True
      with assms n1 n2 have
        "case s of
           b # c # s' \<Rightarrow>
             in_range (if of_char a = (224::nat) then 160 else 128)
                      (if of_char a = (237::nat) then 159 else 191) b
             \<and> in_range 128 191 c \<and> valid_utf8 s'
         | _ \<Rightarrow> False"
        by simp
      then obtain b c s' where "s = b # c # s'"
        "in_range (if of_char a = (224::nat) then 160 else 128)
                  (if of_char a = (237::nat) then 159 else 191) b"
        "in_range 128 191 c" "valid_utf8 s'"
        by (cases s; cases "tl s") simp_all
      with True three show ?thesis
        by blast
    next
      case n3: False
      show ?thesis
      proof (cases "in_range 240 244 a")
        case True
        with assms n1 n2 n3 have
          "case s of
             b # c # d # s' \<Rightarrow>
               in_range (if of_char a = (240::nat) then 144 else 128)
                        (if of_char a = (244::nat) then 143 else 191) b
               \<and> in_range 128 191 c \<and> in_range 128 191 d \<and> valid_utf8 s'
           | _ \<Rightarrow> False"
          by simp
        then obtain b c d s' where "s = b # c # d # s'"
          "in_range (if of_char a = (240::nat) then 144 else 128)
                    (if of_char a = (244::nat) then 143 else 191) b"
          "in_range 128 191 c" "in_range 128 191 d" "valid_utf8 s'"
          by (cases s; cases "tl s"; cases "tl (tl s)") simp_all
        with True four show ?thesis
          by blast
      next
        case False
        with assms n1 n2 n3 show ?thesis
          by simp
      qed
    qed
  qed
qed

lemma utf8_decode_valid: "valid_utf8 s \<Longrightarrow> utf8_decode s = s"
proof (induction "length s" arbitrary: s rule: less_induct)
  case less
  show ?case
  proof (cases s)
    case Nil
    then show ?thesis
      by simp
  next
    case (Cons a s0)
    from less.prems have v: "valid_utf8 (a # s0)"
      unfolding Cons .
    from v show ?thesis
    proof (cases rule: valid_utf8_cases)
      case one
      have "utf8_decode s0 = s0"
        using one(2) by (rule less.hyps [rotated]) (simp add: Cons)
      then show ?thesis
        unfolding Cons using one(1) by (simp only: utf8_decode_one [OF in_range_weaken])
    next
      case (two b s')
      have "utf8_decode s' = s'"
        using two(4) by (rule less.hyps [rotated]) (simp add: Cons two(2))
      then show ?thesis
        unfolding Cons two(2) by (simp only: utf8_decode_two [OF two(1) two(3)])
    next
      case (three b c s')
      have "utf8_decode s' = s'"
        using three(5) by (rule less.hyps [rotated]) (simp add: Cons three(2))
      then show ?thesis
        unfolding Cons three(2) by (simp only: utf8_decode_three [OF three(1) three(3) three(4)])
    next
      case (four b c d s')
      have "utf8_decode s' = s'"
        using four(6) by (rule less.hyps [rotated]) (simp add: Cons four(2))
      then show ?thesis
        unfolding Cons four(2)
        by (simp only: utf8_decode_four [OF four(1) four(3) four(4) four(5)])
    qed
  qed
qed

lemma req_text_valid:
  "valid_utf8 body \<Longrightarrow> take 3 body \<noteq> byte_order_mark \<Longrightarrow> req_text body = body"
  by (simp add: req_text_def utf8_decode_valid)

lemma req_text_example:
  "req_text ''captured pay_1 order_A 4000000'' = ''captured pay_1 order_A 4000000''"
  by (simp add: req_text_def byte_order_mark_def in_range_def char_of_def bit_Suc_0_iff)

lemma req_text_example_unknown:
  "req_text ''captured pay_2 order_X 4000000'' = ''captured pay_2 order_X 4000000''"
  by (simp add: req_text_def byte_order_mark_def in_range_def char_of_def bit_Suc_0_iff)

lemma req_text_example_no_entity: "req_text ''captured'' = ''captured''"
  by (simp add: req_text_def byte_order_mark_def in_range_def char_of_def bit_Suc_0_iff)










lemma body_unique_violation_at_lock:
  assumes "process_payment_webhook_body role lk iid tid a school db = Inl (UniqueViolation idx, base)"
  shows "base = lk db \<and> Some tid \<in> set (map pay_transaction_id (payments (lk db)))
         \<and> find (\<lambda>p. pay_transaction_id p = Some tid) (payments db) = None"
  using assms
  unfolding process_payment_webhook_body_def insert_payment_def
  by (simp add: Let_def split: if_splits option.splits sum.splits prod.splits)

text \<open>The example data, evaluated.\<close>

lemma example_db_tables:
  "payment_intents example_db = [example_intent]"
  "student_fees example_db = [example_fee]"
  "payments example_db = []"
  "webhook_logs example_db = []"
  by (simp_all add: example_db_def example_intent_def example_fee_def)

lemma example_base64: "base64_decode ''aGVsbA=='' = Inr ''hell''"
  by (simp add: base64_decode_def b64lookup_def base64_alphabet_def is_space_def char_of_def
      bit_Suc_0_iff)

lemma example_decrypt: "decrypt_config_value ''ENCRYPTED:aGVsbA=='' = Inr ''hell''"
  by (simp add: decrypt_config_value_def example_base64 convert_from_utf8_def in_range_def)

lemma example_secret:
  "get_school_config ''service_role'' example_db 3 ''razorpay_webhook_secret''
     = Inr (Some ''hell'')"
  by (simp add: get_school_config_def example_db_def example_decrypt)

lemma example_verify:
  "verifyWebhookSignature example_hmac ''captured pay_1 order_A 4000000'' ''1e04'' ''hell''"
  by (simp add: verifyWebhookSignature_def example_hmac_def hex_encode_def hex_char_def)

lemma example_first_apply:
  "rpc_process_payment_webhook ''service_role'' (\<lambda>d. d) 1 ''pay_1'' 4000000 3
     (example_db\<lparr>webhook_logs := logs\<rparr>) = (Inr 1, example_db_after_first logs)"
  unfolding rpc_process_payment_webhook_def process_payment_webhook_def
    process_payment_webhook_body_def insert_payment_def insert_webhook_log_def
    example_db_after_first_def
  by (simp add: example_db_def example_intent_def example_fee_def Let_def fresh_id_def
      fits_numeric_10_2_def new_status_def)

lemma example_lock_view:
  "at_row_lock example_race (example_db\<lparr>webhook_logs := logs\<rparr>) = example_db_after_first logs"
  "before_rpc example_race db = db"
  by (simp_all only: example_race_def interleaving.simps example_first_apply snd_conv)

lemma example_violation:
  "process_payment_webhook_body ''service_role'' (at_row_lock example_race) 1 ''pay_1'' 4000000 3
     (before_rpc example_race (example_db\<lparr>webhook_logs := logs\<rparr>))
   = Inl (UniqueViolation ''idx_payments_razorpay_payment_id'', example_db_after_first logs)"
  unfolding process_payment_webhook_body_def example_lock_view
  by (simp add: example_db_tables example_db_after_first_def example_intent_def
      example_fee_def Let_def fits_numeric_10_2_def insert_payment_def)

lemma example_webhook_verified:
  "handleWebhook example_parse example_hmac ilv example_request example_db =
     (case handle_payment_captured ilv example_payment 3 1
             (example_db\<lparr>webhook_logs :=
                [\<lparr>wl_id = 1, wl_school_id = Some 3, wl_webhook_event = ''payment.captured'',
                  wl_razorpay_signature = Some ''1e04'',
                  wl_payload = WebhookBody \<lparr>wp_event = ''payment.captured'',
                                            wp_payment_entity = Some example_payment\<rparr>,
                  wl_signature_valid = True, wl_processing_status = Received,
                  wl_error_message = None\<rparr>]\<rparr>) of
        (resp, db') \<Rightarrow>
          (resp, db',
           [VaultGet 3 ''razorpay_webhook_secret'',
            SignatureVerify ''captured pay_1 order_A 4000000'' ''1e04'' ''hell'']))"
  unfolding handleWebhook_def
  by (simp add: example_parse_def example_request_def req_text_example extract_order_id_def example_payment_def
      example_db_tables example_intent_def single_def example_secret example_verify
      fresh_id_def)

text \<open>Once the idempotency lookup has missed and the order's intent is read again, the
  outcome of the handler is decided by the call of the atomic function.\<close>

lemma captured_reaches_rpc:
  assumes "single (filter (\<lambda>p. pay_transaction_id p = Some (rp_id payment)) (payments db)) = None"
      and "rp_order_id payment = Some oid"
      and "single (filter (\<lambda>i. pi_razorpay_order_id i = oid) (payment_intents db)) = Some intent"
  shows "handle_payment_captured ilv payment school logid db =
     (case rpc_process_payment_webhook ''service_role'' (at_row_lock ilv) (pi_id intent)
             (rp_id payment) (rp_amount payment) school (before_rpc ilv db) of
        (Inl e, s) \<Rightarrow>
          (errorResponse ''Payment processing failed'' 500,
           set_log_failed logid (''Transaction failed: '' @ sqlerrm e) s)
      | (Inr pid, s) \<Rightarrow>
          (successResponse ''Payment processed successfully'' (Some (RowId pid)),
           set_log_status logid Processed s))"
  using assms by (simp add: handle_payment_captured_def)

lemma example_race_outcome:
  "handle_payment_captured example_race example_payment 3 1 (example_db\<lparr>webhook_logs := logs\<rparr>)
   = (errorResponse ''Payment processing failed'' 500,
      set_log_failed 1
        ''Transaction failed: duplicate key value violates unique constraint idx_payments_razorpay_payment_id''
        (example_db_after_first logs))"
proof -
  have h1: "single (filter (\<lambda>p. pay_transaction_id p = Some (rp_id example_payment))
                      (payments (example_db\<lparr>webhook_logs := logs\<rparr>))) = None"
    by (simp add: example_db_tables single_def)
  have h2: "rp_order_id example_payment = Some ''order_A''"
    by (simp add: example_payment_def)
  have h3: "single (filter (\<lambda>i. pi_razorpay_order_id i = ''order_A'')
                      (payment_intents (example_db\<lparr>webhook_logs := logs\<rparr>))) = Some example_intent"
    by (simp add: example_db_tables example_intent_def single_def)
  have rpc: "rpc_process_payment_webhook ''service_role'' (at_row_lock example_race)
           (pi_id example_intent) (rp_id example_payment) (rp_amount example_payment) 3
           (before_rpc example_race (example_db\<lparr>webhook_logs := logs\<rparr>))
         = (Inl (UniqueViolation ''idx_payments_razorpay_payment_id''),
            example_db_after_first logs)"
    using example_violation [of logs]
    by (simp add: rpc_process_payment_webhook_def process_payment_webhook_def
        example_intent_def example_payment_def)
  show ?thesis
    unfolding captured_reaches_rpc [OF h1 h2 h3] rpc by simp
qed

lemma example_db_logs_nil: "example_db\<lparr>webhook_logs := []\<rparr> = example_db"
  by (simp add: example_db_def)

lemma handleWebhook_unresolved:
  assumes "parse (req_text (raw_body req)) = Some wp" "extract_order_id wp = Some oid"
      and "single (filter (\<lambda>i. pi_razorpay_order_id i = oid) (payment_intents db)) = None"
  shows "snd (handleWebhook parse hmac ilv req db) = (db, [])"
  using assms by (simp add: handleWebhook_def Let_def split: option.splits)

lemma handleWebhook_calls_cases:
  assumes "handleWebhook parse hmac ilv req db = (resp, db', calls)"
  shows "calls = []
       \<or> (\<exists>wp oid intent.
             parse (req_text (raw_body req)) = Some wp \<and> extract_order_id wp = Some oid
           \<and> single (filter (\<lambda>i. pi_razorpay_order_id i = oid) (payment_intents db)) = Some intent
           \<and> (calls = [VaultGet (pi_school_id intent) ''razorpay_webhook_secret'']
              \<or> (\<exists>sg secret.
                    x_razorpay_signature req = Some sg
                  \<and> get_school_config ''service_role'' db (pi_school_id intent)
                        ''razorpay_webhook_secret'' = Inr (Some secret)
                  \<and> calls = [VaultGet (pi_school_id intent) ''razorpay_webhook_secret'',
                              SignatureVerify (req_text (raw_body req)) sg secret])))"
  using assms
  unfolding handleWebhook_def
  by (simp add: Let_def split: option.splits if_splits sum.splits prod.splits)

lemma handleWebhook_invalid_signature:
  assumes "handleWebhook parse hmac ilv req db = (resp, db', calls)"
      and "SignatureVerify body sg secret \<in> set calls"
      and "\<not> verifyWebhookSignature hmac body sg secret"
  shows "resp = errorResponse ''Invalid webhook signature'' 400
       \<and> payments db' = payments db \<and> student_fees db' = student_fees db
       \<and> payment_intents db' = payment_intents db
       \<and> (\<exists>l \<in> set (webhook_logs db').
              wl_signature_valid l = False \<and> wl_processing_status l = Failed)"
  using assms
  unfolding handleWebhook_def
  by (auto simp: Let_def set_log_failed_def insert_webhook_log_def
      split: option.splits if_splits sum.splits prod.splits)

lemma hex_char_eq_iff: "hex_char m = hex_char n \<longleftrightarrow> m mod 16 = n mod 16"
proof -
  have d: "distinct ''0123456789abcdef''" by simp
  have l: "length ''0123456789abcdef'' = 16" by simp
  show ?thesis
    unfolding hex_char_def
    by (rule nth_eq_iff_index_eq [OF d]) (simp_all only: l mod_less_divisor zero_less_numeral)
qed

lemma hex_char_in: "hex_char n \<in> set ''0123456789abcdef''"
  unfolding hex_char_def by (rule nth_mem) simp

lemma hex_encode_Cons:
  "hex_encode (b # bs) = hex_char (of_char b div 16) # hex_char (of_char b) # hex_encode bs"
  by (simp add: hex_encode_def)

lemma hex_encode_Nil: "hex_encode [] = []"
  by (simp add: hex_encode_def)

lemma hex_byte_inj:
  assumes "hex_char (of_char a div 16) = hex_char (of_char b div 16)"
      and "hex_char (of_char a) = hex_char (of_char b)"
  shows "a = b"
proof -
  let ?x = "of_char a :: nat" and ?y = "of_char b :: nat"
  have lt: "?x < 256" "?y < 256" by simp_all
  have small: "?x div 16 < 16" "?y div 16 < 16"
    using lt by (simp_all add: less_mult_imp_div_less)
  from assms have "?x div 16 mod 16 = ?y div 16 mod 16" and lo: "?x mod 16 = ?y mod 16"
    by (simp_all add: hex_char_eq_iff)
  with small have hi: "?x div 16 = ?y div 16" by simp
  have "?x = 16 * (?x div 16) + ?x mod 16" by (rule mult_div_mod_eq [symmetric])
  also have "\<dots> = 16 * (?y div 16) + ?y mod 16" by (simp only: hi lo)
  also have "\<dots> = ?y" by (rule mult_div_mod_eq)
  finally show ?thesis by simp
qed

lemma hex_encode_inj: "hex_encode d1 = hex_encode d2 \<Longrightarrow> d1 = d2"
proof (induction d1 arbitrary: d2)
  case Nil
  then show ?case by (cases d2) (simp_all add: hex_encode_Nil hex_encode_Cons)
next
  case (Cons a d1)
  then show ?case
    by (cases d2) (auto simp: hex_encode_Nil hex_encode_Cons dest: hex_byte_inj)
qed

lemma hex_encode_length: "length (hex_encode d) = 2 * length d"
  by (induction d) (simp_all add: hex_encode_Nil hex_encode_Cons)

lemma hex_encode_chars: "set (hex_encode d) \<subseteq> set ''0123456789abcdef''"
proof -
  define S where "S = set ''0123456789abcdef''"
  have mem: "hex_char n \<in> S" for n
    unfolding S_def by (rule hex_char_in)
  have "set (hex_encode d) \<subseteq> S"
  proof (induction d)
    case Nil
    show ?case by (simp add: hex_encode_Nil)
  next
    case (Cons a d)
    then show ?case by (simp add: hex_encode_Cons mem)
  qed
  then show ?thesis by (simp only: S_def)
qed

lemma handleWebhook_verifies_body_text:
  assumes "handleWebhook parse hmac ilv req db = (resp, db', calls)"
      and "SignatureVerify body sg secret \<in> set calls"
  shows "body = req_text (raw_body req) \<and> x_razorpay_signature req = Some sg"
  using handleWebhook_calls_cases [OF assms(1)] assms(2) by auto

lemma example_verify_tampered:
  "\<not> verifyWebhookSignature example_hmac ''captured pay_1 order_A 4000000'' ''1e05'' ''hell''"
  by (simp add: verifyWebhookSignature_def example_hmac_def hex_encode_def hex_char_def)

lemma example_webhook_tampered:
  "handleWebhook example_parse example_hmac ilv
     (example_request\<lparr>x_razorpay_signature := Some ''1e05''\<rparr>) example_db =
     (errorResponse ''Invalid webhook signature'' 400,
      example_db\<lparr>webhook_logs :=
         [\<lparr>wl_id = 1, wl_school_id = Some 3, wl_webhook_event = ''payment.captured'',
           wl_razorpay_signature = Some ''1e05'',
           wl_payload = WebhookBody \<lparr>wp_event = ''payment.captured'',
                                     wp_payment_entity = Some example_payment\<rparr>,
           wl_signature_valid = False, wl_processing_status = Failed,
           wl_error_message = Some ''Invalid webhook signature''\<rparr>]\<rparr>,
      [VaultGet 3 ''razorpay_webhook_secret'',
       SignatureVerify ''captured pay_1 order_A 4000000'' ''1e05'' ''hell''])"
  unfolding handleWebhook_def
  by (simp add: example_parse_def example_request_def req_text_example extract_order_id_def example_payment_def
      example_db_tables example_intent_def single_def example_secret example_verify_tampered
      fresh_id_def set_log_failed_def)

text \<open>Facts for a sequence of deliveries of one payment.\<close>

lemma find_by_key:
  assumes "distinct (map f xs)" "x \<in> set xs" "P x"
  shows "find (\<lambda>y. f y = f x \<and> P y) xs = Some x"
  using assms
proof (induction xs)
  case Nil
  then show ?case by simp
next
  case (Cons y ys)
  show ?case
  proof (cases "y = x")
    case True
    then show ?thesis using Cons.prems by simp
  next
    case False
    with Cons.prems have "x \<in> set ys" by simp
    then have "f x \<in> f ` set ys" by simp
    with Cons.prems have "f y \<noteq> f x" by auto
    with Cons \<open>x \<in> set ys\<close> show ?thesis by simp
  qed
qed

lemma single_Some_iff: "single xs = Some x \<longleftrightarrow> xs = [x]"
  by (cases xs) (simp_all add: single_def split: list.splits)

lemma single_mem: "single (filter P xs) = Some x \<Longrightarrow> x \<in> set xs \<and> P x"
proof -
  assume "single (filter P xs) = Some x"
  then have "filter P xs = [x]" by (simp add: single_Some_iff)
  then have "x \<in> set (filter P xs)" by simp
  then show ?thesis by simp
qed

lemma rpc_success_result:
  assumes intent: "find (\<lambda>i. pi_id i = iid \<and> pi_school_id i = school) (payment_intents db)
                     = Some intent"
      and fresh: "Some tid \<notin> set (map pay_transaction_id (payments db))"
      and fee: "find (\<lambda>f. sf_id f = pi_student_fee_id intent \<and> sf_school_id f = school)
                  (student_fees db) = Some fee"
      and paid: "sf_amount_paid fee = Some paid"
      and fits: "fits_numeric_10_2 (paid + a)" "fits_numeric_10_2 a"
  shows "rpc_process_payment_webhook ''service_role'' (\<lambda>d. d) iid tid a school db =
     (Inr (fresh_id (map pay_id (payments db))),
      db\<lparr>payments := payments db @
            [\<lparr>pay_id = fresh_id (map pay_id (payments db)),
              pay_student_fee_id = pi_student_fee_id intent,
              pay_school_id = school, pay_transaction_id = Some tid,
              pay_razorpay_order_id = map_option pi_razorpay_order_id
                  (find (\<lambda>i. pi_id i = iid) (payment_intents db)),
              pay_amount = a, pay_payment_method = ''Online'',
              pay_is_webhook_verified = True\<rparr>],
         student_fees :=
            map (\<lambda>f. if sf_id f = pi_student_fee_id intent
                      then f\<lparr>sf_amount_paid := Some (paid + a),
                             sf_status := new_status (paid + a) (sf_total_due fee)\<rparr>
                      else f) (student_fees db),
         payment_intents :=
            map (\<lambda>i. if pi_id i = iid
                      then i\<lparr>pi_status := IntentPaid, pi_razorpay_payment_id := Some tid,
                             pi_webhook_verified := True\<rparr>
                      else i) (payment_intents db),
         webhook_logs := webhook_logs db @
            [\<lparr>wl_id = fresh_id (map wl_id (webhook_logs db)),
              wl_school_id = Some school, wl_webhook_event = ''payment.captured'',
              wl_razorpay_signature = None,
              wl_payload = ProcessedDetail tid a (pi_student_fee_id intent),
              wl_signature_valid = True, wl_processing_status = Processed,
              wl_error_message = None\<rparr>]\<rparr>)"
proof -
  have nodup: "find (\<lambda>p. pay_transaction_id p = Some tid) (payments db) = None"
    using fresh by (force simp: find_None_iff image_iff)
  show ?thesis
    using intent nodup fee paid fits fresh
    unfolding rpc_process_payment_webhook_def process_payment_webhook_def
      process_payment_webhook_body_def insert_payment_def insert_webhook_log_def
    by (simp add: Let_def)
qed

lemma handleWebhook_accepted:
  assumes "parse (req_text (raw_body req))
             = Some \<lparr>wp_event = ''payment.captured'', wp_payment_entity = Some pay\<rparr>"
      and "x_razorpay_signature req = Some sg" "sg \<noteq> []"
      and "rp_order_id pay = Some oid" "oid \<noteq> []"
      and "single (filter (\<lambda>i. pi_razorpay_order_id i = oid) (payment_intents db)) = Some intent"
      and "get_school_config ''service_role'' db (pi_school_id intent) ''razorpay_webhook_secret''
             = Inr (Some secret)"
      and "secret \<noteq> []"
      and "verifyWebhookSignature hmac (req_text (raw_body req)) sg secret"
  shows "handleWebhook parse hmac ilv req db =
           (case handle_payment_captured ilv pay (pi_school_id intent)
                   (fresh_id (map wl_id (webhook_logs db)))
                   (db\<lparr>webhook_logs := webhook_logs db @
                      [\<lparr>wl_id = fresh_id (map wl_id (webhook_logs db)),
                        wl_school_id = Some (pi_school_id intent),
                        wl_webhook_event = ''payment.captured'',
                        wl_razorpay_signature = Some sg,
                        wl_payload = WebhookBody \<lparr>wp_event = ''payment.captured'',
                                                  wp_payment_entity = Some pay\<rparr>,
                        wl_signature_valid = True,
                        wl_processing_status = Received,
                        wl_error_message = None\<rparr>]\<rparr>) of
              (resp, db') \<Rightarrow>
                (resp, db',
                 [VaultGet (pi_school_id intent) ''razorpay_webhook_secret'',
                  SignatureVerify (req_text (raw_body req)) sg secret]))"
  using assms by (simp add: handleWebhook_def extract_order_id_def Let_def)

lemma handle_payment_captured_duplicate:
  assumes "single (filter (\<lambda>p. pay_transaction_id p = Some (rp_id pay)) (payments db)) = Some p"
  shows "handle_payment_captured ilv pay school lid db =
           (successResponse ''Payment already processed'' None, set_log_status lid Processed db)"
  using assms by (simp add: handle_payment_captured_def)

lemma handleWebhook_duplicate:
  assumes acc: "capture_accepted parse hmac db tid req"
      and dup: "single (filter (\<lambda>p. pay_transaction_id p = Some tid) (payments db)) = Some p"
  shows "\<exists>db' calls.
           handleWebhook parse hmac ilv req db
             = (successResponse ''Payment already processed'' None, db', calls)
         \<and> payments db' = payments db \<and> student_fees db' = student_fees db
         \<and> payment_intents db' = payment_intents db
         \<and> school_configurations db' = school_configurations db"
proof -
  from acc obtain sg pay oid intent secret where
    a: "parse (req_text (raw_body req))
          = Some \<lparr>wp_event = ''payment.captured'', wp_payment_entity = Some pay\<rparr>"
       "x_razorpay_signature req = Some sg" "sg \<noteq> []"
       "rp_order_id pay = Some oid" "oid \<noteq> []"
       "single (filter (\<lambda>i. pi_razorpay_order_id i = oid) (payment_intents db)) = Some intent"
       "get_school_config ''service_role'' db (pi_school_id intent) ''razorpay_webhook_secret''
          = Inr (Some secret)"
       "secret \<noteq> []"
       "verifyWebhookSignature hmac (req_text (raw_body req)) sg secret"
    and tid: "rp_id pay = tid"
    unfolding capture_accepted_def by blast
  obtain logs calls where
    run: "handleWebhook parse hmac ilv req db =
             (case handle_payment_captured ilv pay (pi_school_id intent)
                     (fresh_id (map wl_id (webhook_logs db))) (db\<lparr>webhook_logs := logs\<rparr>) of
                (resp, db') \<Rightarrow> (resp, db', calls))"
    using handleWebhook_accepted [where parse = parse and hmac = hmac and req = req, OF a, of ilv]
    by blast
  have "single (filter (\<lambda>p. pay_transaction_id p = Some (rp_id pay))
                  (payments (db\<lparr>webhook_logs := logs\<rparr>))) = Some p"
    using dup tid by simp
  then have "handle_payment_captured ilv pay (pi_school_id intent)
               (fresh_id (map wl_id (webhook_logs db))) (db\<lparr>webhook_logs := logs\<rparr>)
             = (successResponse ''Payment already processed'' None,
                set_log_status (fresh_id (map wl_id (webhook_logs db))) Processed
                  (db\<lparr>webhook_logs := logs\<rparr>))"
    by (rule handle_payment_captured_duplicate)
  with run have "handleWebhook parse hmac ilv req db
             = (successResponse ''Payment already processed'' None,
                set_log_status (fresh_id (map wl_id (webhook_logs db))) Processed
                  (db\<lparr>webhook_logs := logs\<rparr>), calls)"
    by simp
  then show ?thesis by (simp add: set_log_status_def)
qed

lemma capture_accepted_cong:
  assumes "payment_intents db' = payment_intents db"
      and "school_configurations db' = school_configurations db"
  shows "capture_accepted parse hmac db' tid r = capture_accepted parse hmac db tid r"
  by (simp add: capture_accepted_def get_school_config_def assms)

lemma process_duplicates:
  assumes "\<forall>r \<in> set reqs. capture_accepted parse hmac db tid r"
      and "single (filter (\<lambda>p. pay_transaction_id p = Some tid) (payments db)) = Some p"
  shows "\<exists>db'. process_notifications parse hmac reqs db
                 = (replicate (length reqs) (successResponse ''Payment already processed'' None),
                    db')
             \<and> payments db' = payments db \<and> student_fees db' = student_fees db"
  using assms
proof (induction reqs arbitrary: db)
  case Nil
  show ?case by simp
next
  case (Cons r reqs)
  from Cons.prems have acc: "capture_accepted parse hmac db tid r" by simp
  from handleWebhook_duplicate [OF acc Cons.prems(2), of alone]
  obtain db1 calls where
    run: "handleWebhook parse hmac alone r db
            = (successResponse ''Payment already processed'' None, db1, calls)"
    and same: "payments db1 = payments db" "student_fees db1 = student_fees db"
      "payment_intents db1 = payment_intents db"
      "school_configurations db1 = school_configurations db"
    by blast
  have acc1: "\<forall>r \<in> set reqs. capture_accepted parse hmac db1 tid r"
    using Cons.prems(1) by (simp add: capture_accepted_cong [OF same(3) same(4)])
  have dup1: "single (filter (\<lambda>p. pay_transaction_id p = Some tid) (payments db1)) = Some p"
    using Cons.prems(2) by (simp add: same)
  from Cons.IH [OF acc1 dup1] obtain db' where
    rest: "process_notifications parse hmac reqs db1
             = (replicate (length reqs) (successResponse ''Payment already processed'' None), db')"
    and same': "payments db' = payments db1" "student_fees db' = student_fees db1"
    by blast
  show ?case
    by (rule exI [of _ db']) (simp add: run rest same same')
qed

lemma filter_absent:
  "Some t \<notin> set (map f xs) \<Longrightarrow> filter (\<lambda>p. f p = Some t) xs = []"
  by (induction xs) auto

lemma single_map: "single (map u ys) = map_option u (single ys)"
  by (cases ys) (simp_all add: single_def split: list.splits)

lemma single_filter_map:
  assumes "\<And>x. P (u x) = P x"
  shows "single (filter P (map u xs)) = map_option u (single (filter P xs))"
proof -
  have "filter P (map u xs) = map u (filter (P \<circ> u) xs)" by (rule filter_map)
  also have "P \<circ> u = P" using assms by (simp add: fun_eq_iff)
  finally show ?thesis by (simp add: single_map)
qed

lemma get_school_config_cong:
  "school_configurations db' = school_configurations db \<Longrightarrow>
   get_school_config role db' s k = get_school_config role db s k"
  by (simp add: get_school_config_def)

lemma capture_accepted_after_paid:
  assumes ints: "payment_intents db' =
              map (\<lambda>i. if pi_id i = iid
                        then i\<lparr>pi_status := IntentPaid, pi_razorpay_payment_id := x,
                               pi_webhook_verified := True\<rparr>
                        else i) (payment_intents db)"
      and conf: "school_configurations db' = school_configurations db"
      and acc: "capture_accepted parse hmac db tid r"
  shows "capture_accepted parse hmac db' tid r"
proof -
  define u where "u = (\<lambda>i::payment_intent. if pi_id i = iid
                        then i\<lparr>pi_status := IntentPaid, pi_razorpay_payment_id := x,
                               pi_webhook_verified := True\<rparr>
                        else i)"
  have u_order: "pi_razorpay_order_id (u i) = pi_razorpay_order_id i"
    and u_school: "pi_school_id (u i) = pi_school_id i" for i
    by (simp_all add: u_def)
  from acc obtain sg pay oid intent secret where
    a: "parse (req_text (raw_body r))
          = Some \<lparr>wp_event = ''payment.captured'', wp_payment_entity = Some pay\<rparr>"
       "x_razorpay_signature r = Some sg" "sg \<noteq> []"
       "rp_id pay = tid" "rp_order_id pay = Some oid" "oid \<noteq> []"
       "secret \<noteq> []"
       "verifyWebhookSignature hmac (req_text (raw_body r)) sg secret"
    and intent: "single (filter (\<lambda>i. pi_razorpay_order_id i = oid) (payment_intents db))
                   = Some intent"
    and secret: "get_school_config ''service_role'' db (pi_school_id intent)
                   ''razorpay_webhook_secret'' = Inr (Some secret)"
    unfolding capture_accepted_def by blast
  have "single (filter (\<lambda>i. pi_razorpay_order_id i = oid) (map u (payment_intents db)))
          = map_option u (single (filter (\<lambda>i. pi_razorpay_order_id i = oid) (payment_intents db)))"
    by (rule single_filter_map) (simp add: u_order)
  then have intent': "single (filter (\<lambda>i. pi_razorpay_order_id i = oid) (payment_intents db'))
                        = Some (u intent)"
    by (simp add: ints u_def [symmetric] intent)
  have secret': "get_school_config ''service_role'' db' (pi_school_id (u intent))
                   ''razorpay_webhook_secret'' = Inr (Some secret)"
    by (simp add: u_school get_school_config_cong [OF conf] secret)
  show ?thesis
    unfolding capture_accepted_def
    apply (rule exI [of _ sg], rule exI [of _ pay], rule exI [of _ oid])
    apply (rule exI [of _ "u intent"], rule exI [of _ secret])
    apply (simp add: a intent' secret')
    done
qed

lemma handleWebhook_first_apply:
  assumes a: "parse (req_text (raw_body req))
             = Some \<lparr>wp_event = ''payment.captured'', wp_payment_entity = Some pay\<rparr>"
        "x_razorpay_signature req = Some sg" "sg \<noteq> []"
        "rp_order_id pay = Some oid" "oid \<noteq> []"
        "single (filter (\<lambda>i. pi_razorpay_order_id i = oid) (payment_intents db)) = Some intent"
        "get_school_config ''service_role'' db (pi_school_id intent) ''razorpay_webhook_secret''
             = Inr (Some secret)"
        "secret \<noteq> []"
        "verifyWebhookSignature hmac (req_text (raw_body req)) sg secret"
      and keys: "distinct (map pi_id (payment_intents db))"
      and fresh: "Some (rp_id pay) \<notin> set (map pay_transaction_id (payments db))"
      and fee: "find (\<lambda>f. sf_id f = pi_student_fee_id intent \<and> sf_school_id f = pi_school_id intent)
                  (student_fees db) = Some fee"
      and paid: "sf_amount_paid fee = Some paid"
      and fits: "fits_numeric_10_2 (paid + rp_amount pay)" "fits_numeric_10_2 (rp_amount pay)"
  shows "\<exists>pid db' calls row.
           handleWebhook parse hmac alone req db
             = (successResponse ''Payment processed successfully'' (Some (RowId pid)), db', calls)
         \<and> payments db' = payments db @ [row]
         \<and> pay_transaction_id row = Some (rp_id pay) \<and> pay_amount row = rp_amount pay
         \<and> student_fees db' =
              map (\<lambda>f. if sf_id f = pi_student_fee_id intent
                        then f\<lparr>sf_amount_paid := Some (paid + rp_amount pay),
                               sf_status := new_status (paid + rp_amount pay) (sf_total_due fee)\<rparr>
                        else f) (student_fees db)
         \<and> payment_intents db' =
              map (\<lambda>i. if pi_id i = pi_id intent
                        then i\<lparr>pi_status := IntentPaid,
                               pi_razorpay_payment_id := Some (rp_id pay),
                               pi_webhook_verified := True\<rparr>
                        else i) (payment_intents db)
         \<and> school_configurations db' = school_configurations db"
proof -
  define lid where "lid = fresh_id (map wl_id (webhook_logs db))"
  obtain logs calls where
    run: "handleWebhook parse hmac alone req db =
             (case handle_payment_captured alone pay (pi_school_id intent) lid
                     (db\<lparr>webhook_logs := logs\<rparr>) of
                (resp, db') \<Rightarrow> (resp, db', calls))"
    using handleWebhook_accepted [where parse = parse and hmac = hmac and req = req, OF a, of alone]
    unfolding lid_def by blast
  define db0 where "db0 = db\<lparr>webhook_logs := logs\<rparr>"
  have tabs: "payments db0 = payments db" "student_fees db0 = student_fees db"
    "payment_intents db0 = payment_intents db"
    "school_configurations db0 = school_configurations db"
    "webhook_logs db0 = logs"
    by (simp_all add: db0_def)
  have miss: "single (filter (\<lambda>p. pay_transaction_id p = Some (rp_id pay)) (payments db0)) = None"
    using filter_absent [OF fresh] by (simp add: tabs single_def)
  have intent0: "single (filter (\<lambda>i. pi_razorpay_order_id i = oid) (payment_intents db0))
                   = Some intent"
    using a(6) by (simp add: tabs)
  have mem: "intent \<in> set (payment_intents db)"
    using single_mem [OF a(6)] by simp
  have find_intent: "find (\<lambda>i. pi_id i = pi_id intent \<and> pi_school_id i = pi_school_id intent)
                       (payment_intents db0) = Some intent"
    unfolding tabs by (rule find_by_key [OF keys mem]) simp
  have fresh0: "Some (rp_id pay) \<notin> set (map pay_transaction_id (payments db0))"
    using fresh by (simp add: tabs)
  have fee0: "find (\<lambda>f. sf_id f = pi_student_fee_id intent \<and> sf_school_id f = pi_school_id intent)
                  (student_fees db0) = Some fee"
    using fee by (simp add: tabs)
  note rpc = rpc_success_result [OF find_intent fresh0 fee0 paid fits]
  have view: "at_row_lock alone = (\<lambda>d. d)" "before_rpc alone db0 = db0"
    by (simp_all add: alone_def)
  have cap: "handle_payment_captured alone pay (pi_school_id intent) lid db0 =
     (case rpc_process_payment_webhook ''service_role'' (\<lambda>d. d) (pi_id intent)
             (rp_id pay) (rp_amount pay) (pi_school_id intent) db0 of
        (Inl e, s) \<Rightarrow>
          (errorResponse ''Payment processing failed'' 500,
           set_log_failed lid (''Transaction failed: '' @ sqlerrm e) s)
      | (Inr pid, s) \<Rightarrow>
          (successResponse ''Payment processed successfully'' (Some (RowId pid)),
           set_log_status lid Processed s))"
    using captured_reaches_rpc [OF miss a(4) intent0, of alone "pi_school_id intent" lid]
    by (simp only: view)
  show ?thesis
    unfolding run db0_def [symmetric] cap rpc
    by (rule exI [of _ "fresh_id (map pay_id (payments db0))"])
       (simp add: set_log_status_def tabs)
qed

text \<open>The direct path and the webhook path on the example order.\<close>

lemma handleDirectVerification_writes_nothing: "snd (handleDirectVerification rq db) = db"
  unfolding handleDirectVerification_def
  by (simp add: Let_def split: option.splits)

lemma example_direct:
  "handleDirectVerification example_direct_request example_db =
     (errorResponse ''Payment verification failed: verifyRazorpaySignature is not defined'' 500,
      example_db)"
  unfolding handleDirectVerification_def
  by (simp add: example_direct_request_def example_db_def single_def Let_def
      verifyRazorpaySignature_def)

lemma example_webhook_fresh:
  "handleWebhook example_parse example_hmac alone example_request example_db =
     (successResponse ''Payment processed successfully'' (Some (RowId 1)),
      set_log_status 1 Processed
        (example_db_after_first
           [\<lparr>wl_id = 1, wl_school_id = Some 3, wl_webhook_event = ''payment.captured'',
             wl_razorpay_signature = Some ''1e04'',
             wl_payload = WebhookBody \<lparr>wp_event = ''payment.captured'',
                                       wp_payment_entity = Some example_payment\<rparr>,
             wl_signature_valid = True, wl_processing_status = Received,
             wl_error_message = None\<rparr>]),
      [VaultGet 3 ''razorpay_webhook_secret'',
       SignatureVerify ''captured pay_1 order_A 4000000'' ''1e04'' ''hell''])"
proof -
  let ?db0 = "example_db\<lparr>webhook_logs :=
           [\<lparr>wl_id = 1, wl_school_id = Some 3, wl_webhook_event = ''payment.captured'',
             wl_razorpay_signature = Some ''1e04'',
             wl_payload = WebhookBody \<lparr>wp_event = ''payment.captured'',
                                       wp_payment_entity = Some example_payment\<rparr>,
             wl_signature_valid = True, wl_processing_status = Received,
             wl_error_message = None\<rparr>]\<rparr>"
  have h1: "single (filter (\<lambda>p. pay_transaction_id p = Some (rp_id example_payment))
                      (payments ?db0)) = None"
    by (simp add: example_db_tables single_def)
  have h2: "rp_order_id example_payment = Some ''order_A''"
    by (simp add: example_payment_def)
  have h3: "single (filter (\<lambda>i. pi_razorpay_order_id i = ''order_A'')
                      (payment_intents ?db0)) = Some example_intent"
    by (simp add: example_db_tables example_intent_def single_def)
  have rpc: "rpc_process_payment_webhook ''service_role'' (at_row_lock alone)
           (pi_id example_intent) (rp_id example_payment) (rp_amount example_payment) 3
           (before_rpc alone ?db0)
         = (Inr 1, example_db_after_first (webhook_logs ?db0))"
    using example_first_apply [of "webhook_logs ?db0"]
    by (simp add: alone_def example_intent_def example_payment_def)
  have cap: "handle_payment_captured alone example_payment 3 1 ?db0 =
      (successResponse ''Payment processed successfully'' (Some (RowId 1)),
       set_log_status 1 Processed (example_db_after_first (webhook_logs ?db0)))"
    unfolding captured_reaches_rpc [OF h1 h2 h3] rpc by simp
  show ?thesis
    unfolding example_webhook_verified cap by simp
qed

text \<open>The envelope on values with a backslash.\<close>

lemma backslash_char: "backslash = CHR 0x5C"
  by (simp add: backslash_def char_of_def bit_Suc_0_iff)

lemma example_hex_cast:
  "text_to_bytea [backslash, CHR ''x'', CHR ''4'', CHR ''1''] = Inr ''A''"
  by (simp add: text_to_bytea_def hex_digit_val_def is_space_def char_of_def bit_Suc_0_iff)

lemma example_escape_cast:
  "text_to_bytea [CHR ''a'', backslash, backslash, CHR ''b''] = Inr [CHR ''a'', backslash, CHR ''b'']"
  "text_to_bytea [CHR ''a'', backslash, CHR ''b''] = Inl InvalidByteaSyntax"
  by (simp_all add: text_to_bytea_def backslash_char octal_digit_def)

lemma example_encode_A: "base64_encode ''A'' = ''QQ==''"
  by (simp add: base64_encode.simps b64_def base64_alphabet_def)

lemma example_decode_A: "base64_decode ''QQ=='' = Inr ''A''"
  by (simp add: base64_decode_def b64lookup_def base64_alphabet_def is_space_def char_of_def
      bit_Suc_0_iff)

text \<open>The hex encoding of the digest, read back by the hex decoder, and the body text
  of a request.\<close>

lemma lower_hex_digit:
  assumes "c \<in> set ''0123456789abcdef''" and "hex_digit_val c = Some h"
  shows "h < 16 \<and> hex_char h = c \<and> \<not> is_space c"
  using assms
  by (auto simp: hex_digit_val_def hex_char_def is_space_def)

lemma lower_hex_digit_val:
  assumes "c \<in> set ''0123456789abcdef''"
  shows "\<exists>h. hex_digit_val c = Some h"
  using assms by (auto simp: hex_digit_val_def)

lemma hex_char_digits:
  "list_all (\<lambda>n. hex_digit_val (hex_char n) = Some n \<and> \<not> is_space (hex_char n)) [0..<16]"
  by (simp add: upt_conv_Cons hex_digit_val_def hex_char_def is_space_def)

lemma hex_char_digit: "n < 16 \<Longrightarrow> hex_digit_val (hex_char n) = Some n \<and> \<not> is_space (hex_char n)"
  using hex_char_digits unfolding list_all_iff by simp

lemma hex_decode_encode: "hex_decode (hex_encode d) = Inr d"
proof (induction d)
  case Nil
  show ?case by (simp add: hex_encode_Nil)
next
  case (Cons b d)
  let ?n = "of_char b :: nat"
  have lt: "?n < 256" by simp
  then have hi: "?n div 16 < 16"
    by (simp add: less_mult_imp_div_less)
  have lo: "hex_char ?n = hex_char (?n mod 16)"
    by (simp add: hex_char_eq_iff)
  have byte: "?n div 16 * 16 + ?n mod 16 = ?n"
    by (rule div_mult_mod_eq)
  show ?case
    unfolding hex_encode_Cons lo
    using hex_char_digit [OF hi] hex_char_digit [of "?n mod 16"] Cons.IH
    by (simp add: byte)
qed

lemma hex_decode_lower:
  "set sg \<subseteq> set ''0123456789abcdef'' \<Longrightarrow> hex_decode sg = Inr d \<Longrightarrow> sg = hex_encode d"
proof (induction sg arbitrary: d rule: hex_decode.induct)
  case 1
  then show ?case by (simp add: hex_encode_Nil)
next
  case (2 c)
  then obtain h where "hex_digit_val c = Some h"
    using lower_hex_digit_val [of c] by auto
  with 2 have "\<not> is_space c"
    using lower_hex_digit [of c h] by simp
  with 2 show ?case by simp
next
  case (3 c c' s)
  from "3.prems"(1) have c: "c \<in> set ''0123456789abcdef''" and c': "c' \<in> set ''0123456789abcdef''"
    and s: "set s \<subseteq> set ''0123456789abcdef''"
    by simp_all
  obtain h l where h: "hex_digit_val c = Some h" and l: "hex_digit_val c' = Some l"
    using lower_hex_digit_val [OF c] lower_hex_digit_val [OF c'] by auto
  note hc = lower_hex_digit [OF c h] and lc = lower_hex_digit [OF c' l]
  from "3.prems"(2) hc h l obtain bs where bs: "hex_decode s = Inr bs"
    and d: "d = char_of (h * 16 + l) # bs"
    by (auto split: sum.splits)
  have ih: "s = hex_encode bs"
    using hc h l s bs by (intro "3.IH"(2)) simp_all
  have lt: "h * 16 + l < 256"
    using hc lc by simp
  then have byte: "(of_char (char_of (h * 16 + l) :: char) :: nat) = h * 16 + l"
    by simp
  have hi: "(h * 16 + l) div 16 = h" and lo: "(h * 16 + l) mod 16 = l"
    using lc by simp_all
  have "hex_char (h * 16 + l) = hex_char ((h * 16 + l) mod 16)"
    by (simp add: hex_char_eq_iff)
  then have "hex_char ((h * 16 + l) div 16) = c" and "hex_char (h * 16 + l) = c'"
    using hc lc by (simp_all only: hi lo)
  then show ?case
    unfolding d hex_encode_Cons byte using ih by simp
qed

lemma verifyWebhookSignature_hex:
  "verifyWebhookSignature hmac payload signature secret \<longleftrightarrow>
     (\<exists>digest. hmac secret payload = Some digest
        \<and> set signature \<subseteq> set ''0123456789abcdef''
        \<and> hex_decode signature = Inr digest)"
proof
  assume "verifyWebhookSignature hmac payload signature secret"
  then obtain digest where d: "hmac secret payload = Some digest"
    and sg: "signature = hex_encode digest"
    by (auto simp: verifyWebhookSignature_def split: option.splits)
  have "set signature \<subseteq> set ''0123456789abcdef''"
    unfolding sg by (rule hex_encode_chars)
  moreover have "hex_decode signature = Inr digest"
    unfolding sg by (rule hex_decode_encode)
  ultimately show "\<exists>digest. hmac secret payload = Some digest
        \<and> set signature \<subseteq> set ''0123456789abcdef''
        \<and> hex_decode signature = Inr digest"
    using d by blast
next
  assume "\<exists>digest. hmac secret payload = Some digest
        \<and> set signature \<subseteq> set ''0123456789abcdef''
        \<and> hex_decode signature = Inr digest"
  then obtain digest where d: "hmac secret payload = Some digest"
    and low: "set signature \<subseteq> set ''0123456789abcdef''"
    and dec: "hex_decode signature = Inr digest"
    by blast
  from low dec have "signature = hex_encode digest"
    by (rule hex_decode_lower)
  with d show "verifyWebhookSignature hmac payload signature secret"
    by (simp add: verifyWebhookSignature_def)
qed

lemma handleWebhook_body_text:
  assumes "req_text (raw_body r1) = req_text (raw_body r2)"
      and "x_razorpay_signature r1 = x_razorpay_signature r2"
  shows "handleWebhook parse hmac ilv r1 db = handleWebhook parse hmac ilv r2 db"
  unfolding handleWebhook_def assms by (rule refl)

lemma req_text_bom:
  "req_text (byte_order_mark @ ''captured pay_1 order_A 4000000'')
     = ''captured pay_1 order_A 4000000''"
  by (simp add: req_text_def byte_order_mark_def in_range_def char_of_def bit_Suc_0_iff)

lemma example_bom_body:
  "req_text (raw_body example_request_bom) = req_text (raw_body example_request)"
  by (simp add: example_request_bom_def example_request_def req_text_bom req_text_example)

lemma example_verify_bom:
  "\<not> verifyWebhookSignature example_hmac (raw_body example_request_bom) ''1e04'' ''hell''"
  "verifyWebhookSignature example_hmac (raw_body example_request_bom) ''2104'' ''hell''"
  by (simp_all add: verifyWebhookSignature_def example_hmac_def hex_encode_def hex_char_def
      example_request_bom_def byte_order_mark_def)

lemma example_body_valid:
  "valid_utf8 ''captured pay_1 order_A 4000000''"
  "take 3 ''captured pay_1 order_A 4000000'' \<noteq> byte_order_mark"
  by (simp_all add: in_range_def byte_order_mark_def char_of_def bit_Suc_0_iff)























section \<open>The claims\<close>

text \<open>
  \<^bold>\<open>C6.\<close> A single application of a captured amount \<open>a\<close> with
  \<open>0 < a \<le> total_due - amount_paid\<close> succeeds and writes the status of the invariant:
  the fee record holds \<open>amount_paid + a\<close>, with status \<open>Paid\<close> when that equals
  \<open>total_due\<close> and \<open>PartiallyPaid\<close> when it lies strictly between zero and
  \<open>total_due\<close>. The fee record is the row the function locks, of a table keyed by id,
  whose amounts are values of their column type with nothing negative paid.
\<close>

theorem C6_status_boundary:
  assumes intent: "find (\<lambda>i. pi_id i = iid \<and> pi_school_id i = school) (payment_intents db)
                     = Some intent"
      and fresh: "Some tid \<notin> set (map pay_transaction_id (payments db))"
      and key: "distinct (map sf_id (student_fees db))"
      and fee: "find (\<lambda>f. sf_id f = pi_student_fee_id intent \<and> sf_school_id f = school)
                  (student_fees db) = Some fee"
      and paid: "sf_amount_paid fee = Some paid" "0 \<le> paid"
      and due: "fits_numeric_10_2 (sf_total_due fee)"
      and a: "0 < a" "a \<le> sf_total_due fee - paid"
  shows "\<exists>pid db'.
           rpc_process_payment_webhook ''service_role'' (\<lambda>d. d) iid tid a school db
             = (Inr pid, db')
         \<and> (\<exists>f \<in> set (student_fees db'). sf_id f = sf_id fee)
         \<and> (\<forall>f \<in> set (student_fees db'). sf_id f = sf_id fee \<longrightarrow>
               sf_amount_paid f = Some (paid + a)
             \<and> sf_total_due f = sf_total_due fee
             \<and> (paid + a = sf_total_due f \<longrightarrow> sf_status f = Paid)
             \<and> (0 < paid + a \<and> paid + a < sf_total_due f \<longrightarrow> sf_status f = PartiallyPaid))"
proof -
  have nodup: "find (\<lambda>p. pay_transaction_id p = Some tid) (payments db) = None"
    using fresh by (force simp: find_None_iff image_iff)
  have fits_new: "fits_numeric_10_2 (paid + a)" and fits_a: "fits_numeric_10_2 a"
    using paid due a by (auto simp: fits_numeric_10_2_def)
  have fee_in: "fee \<in> set (student_fees db)" and fee_id: "sf_id fee = pi_student_fee_id intent"
    using fee by (auto simp: find_Some_iff)
  have only: "g = fee" if "g \<in> set (student_fees db)" "sf_id g = sf_id fee" for g
    using key that fee_in by (auto simp: distinct_map inj_on_def)
  define st where "st = new_status (paid + a) (sf_total_due fee)"
  define upd where "upd = (\<lambda>f::student_fee. if sf_id f = pi_student_fee_id intent
                    then f\<lparr>sf_amount_paid := Some (paid + a), sf_status := st\<rparr> else f)"
  define pid where "pid = fresh_id (map pay_id (payments db))"
  obtain db' where run:
      "rpc_process_payment_webhook ''service_role'' (\<lambda>d. d) iid tid a school db = (Inr pid, db')"
    and fees': "student_fees db' = map upd (student_fees db)"
    using intent nodup fee paid fits_new fits_a fresh
    unfolding rpc_process_payment_webhook_def process_payment_webhook_def
      process_payment_webhook_body_def insert_payment_def insert_webhook_log_def st_def pid_def
      upd_def
    by (simp add: Let_def)
  have st_paid: "paid + a = sf_total_due fee \<Longrightarrow> st = Paid"
    and st_part: "0 < paid + a \<Longrightarrow> paid + a < sf_total_due fee \<Longrightarrow> st = PartiallyPaid"
    by (simp_all add: st_def new_status_def)
  have upd_id: "sf_id (upd g) = sf_id g" for g
    by (simp add: upd_def)
  have ex: "\<exists>f \<in> set (student_fees db'). sf_id f = sf_id fee"
  proof
    show "upd fee \<in> set (student_fees db')" using fee_in by (simp add: fees')
    show "sf_id (upd fee) = sf_id fee" by (rule upd_id)
  qed
  have all: "sf_amount_paid f = Some (paid + a) \<and> sf_total_due f = sf_total_due fee
             \<and> (paid + a = sf_total_due f \<longrightarrow> sf_status f = Paid)
             \<and> (0 < paid + a \<and> paid + a < sf_total_due f \<longrightarrow> sf_status f = PartiallyPaid)"
    if "f \<in> set (student_fees db')" "sf_id f = sf_id fee" for f
  proof -
    from that(1) obtain g where g: "g \<in> set (student_fees db)" "f = upd g"
      by (auto simp: fees')
    with that(2) have "g = fee" using only upd_id by simp
    then have "f = fee\<lparr>sf_amount_paid := Some (paid + a), sf_status := st\<rparr>"
      using g fee_id by (simp add: upd_def)
    then show ?thesis using st_paid st_part by simp
  qed
  show ?thesis using run ex all by blast
qed

theorem C6_status_boundary_witness:
  "\<exists>pid db'.
     rpc_process_payment_webhook ''service_role'' (\<lambda>d. d) 1 ''pay_1'' 4000000 3 example_db
       = (Inr pid, db')
   \<and> (\<exists>f \<in> set (student_fees db'). sf_id f = 7)
   \<and> (\<forall>f \<in> set (student_fees db'). sf_id f = 7 \<longrightarrow>
         sf_amount_paid f = Some 4000000 \<and> sf_status f = PartiallyPaid)"
proof -
  have h1: "find (\<lambda>i. pi_id i = 1 \<and> pi_school_id i = 3) (payment_intents example_db)
              = Some example_intent"
    by (simp add: example_db_def example_intent_def)
  have h2: "Some ''pay_1'' \<notin> set (map pay_transaction_id (payments example_db))"
    by (simp add: example_db_def)
  have h3: "distinct (map sf_id (student_fees example_db))"
    by (simp add: example_db_def)
  have h4: "find (\<lambda>f. sf_id f = pi_student_fee_id example_intent \<and> sf_school_id f = 3)
              (student_fees example_db) = Some example_fee"
    by (simp add: example_db_def example_intent_def example_fee_def)
  have h5: "sf_amount_paid example_fee = Some 0" "(0::int) \<le> 0"
    by (simp_all add: example_fee_def)
  have h6: "fits_numeric_10_2 (sf_total_due example_fee)"
    by (simp add: example_fee_def fits_numeric_10_2_def)
  have h7: "(0::int) < 4000000" "4000000 \<le> sf_total_due example_fee - 0"
    by (simp_all add: example_fee_def)
  from C6_status_boundary [OF h1 h2 h3 h4 h5 h6 h7]
  obtain pid db' where
    run: "rpc_process_payment_webhook ''service_role'' (\<lambda>d. d) 1 ''pay_1'' 4000000 3 example_db
            = (Inr pid, db')"
    and ex: "\<exists>f \<in> set (student_fees db'). sf_id f = 7"
    and all: "\<forall>f \<in> set (student_fees db'). sf_id f = 7 \<longrightarrow>
                sf_amount_paid f = Some 4000000 \<and> sf_total_due f = 8200000
              \<and> (4000000 < sf_total_due f \<longrightarrow> sf_status f = PartiallyPaid)"
    by (auto simp: example_fee_def)
  from all have "\<forall>f \<in> set (student_fees db'). sf_id f = 7 \<longrightarrow>
                   sf_amount_paid f = Some 4000000 \<and> sf_status f = PartiallyPaid"
    by auto
  with run ex show ?thesis by blast
qed




text \<open>
  \<^bold>\<open>C2.\<close> As stated the claim fails: when a second delivery of the same payment
  commits while this one waits for the row lock, the lookup of step 5 has missed, the
  insert hits the unique index, and the handler answers with the error 500, not with a
  success.
\<close>

theorem C2_counterexample:
  "single (filter (\<lambda>p. pay_transaction_id p = Some ''pay_1'') (payments example_db)) = None
   \<and> fst (handleWebhook example_parse example_hmac example_race example_request example_db)
       = errorResponse ''Payment processing failed'' 500
   \<and> success (fst (handleWebhook example_parse example_hmac example_race example_request
                     example_db)) = False
   \<and> (\<exists>l \<in> set (webhook_logs (fst (snd (handleWebhook example_parse example_hmac example_race
                                            example_request example_db)))).
         wl_processing_status l = Failed
       \<and> wl_error_message l = Some ''Transaction failed: duplicate key value violates unique constraint idx_payments_razorpay_payment_id'')"
  unfolding example_webhook_verified example_race_outcome
  by (simp add: example_db_tables single_def errorResponse_def set_log_failed_def
      example_db_after_first_def)

text \<open>
  \<^bold>\<open>C2, amended.\<close> When the lookup has missed and the insert inside the atomic
  function fails with a uniqueness violation, the exception aborts the function's
  transaction and the notification's outcome is the failure: the response is the error
  500 \<open>Payment processing failed\<close>, the handler's log entry is set to failed with the
  violation's message, and the payments and fee records are those the other
  transactions committed, the racing payment record among them.
\<close>

theorem C2_unique_violation_is_failed:
  assumes miss: "single (filter (\<lambda>p. pay_transaction_id p = Some (rp_id payment)) (payments db))
                   = None"
      and oid: "rp_order_id payment = Some oid"
      and intent: "single (filter (\<lambda>i. pi_razorpay_order_id i = oid) (payment_intents db))
                     = Some intent"
      and violation:
        "process_payment_webhook_body ''service_role'' (at_row_lock ilv) (pi_id intent)
           (rp_id payment) (rp_amount payment) school (before_rpc ilv db)
         = Inl (UniqueViolation idx, base)"
  shows "handle_payment_captured ilv payment school logid db =
           (errorResponse ''Payment processing failed'' 500,
            set_log_failed logid
              (''Transaction failed: duplicate key value violates unique constraint '' @ idx)
              base)
         \<and> base = at_row_lock ilv (before_rpc ilv db)
         \<and> Some (rp_id payment) \<in> set (map pay_transaction_id (payments base))
         \<and> success (fst (handle_payment_captured ilv payment school logid db)) = False
         \<and> payments (snd (handle_payment_captured ilv payment school logid db)) = payments base
         \<and> student_fees (snd (handle_payment_captured ilv payment school logid db))
             = student_fees base"
proof -
  have rpc: "rpc_process_payment_webhook ''service_role'' (at_row_lock ilv) (pi_id intent)
           (rp_id payment) (rp_amount payment) school (before_rpc ilv db)
         = (Inl (UniqueViolation idx), base)"
    by (simp add: rpc_process_payment_webhook_def process_payment_webhook_def violation)
  have run: "handle_payment_captured ilv payment school logid db =
           (errorResponse ''Payment processing failed'' 500,
            set_log_failed logid
              (''Transaction failed: duplicate key value violates unique constraint '' @ idx)
              base)"
    using captured_reaches_rpc [OF miss oid intent, of ilv school logid]
    by (simp add: rpc)
  from body_unique_violation_at_lock [OF violation]
  have base: "base = at_row_lock ilv (before_rpc ilv db)"
    and there: "Some (rp_id payment) \<in> set (map pay_transaction_id (payments base))"
    by simp_all
  show ?thesis
    using there by (simp add: run base [symmetric] errorResponse_def set_log_failed_def)
qed

theorem C2_unique_violation_is_failed_witness:
  "handle_payment_captured example_race example_payment 3 1 example_db =
           (errorResponse ''Payment processing failed'' 500,
            set_log_failed 1
              (''Transaction failed: duplicate key value violates unique constraint '' @ ''idx_payments_razorpay_payment_id'')
              (example_db_after_first []))
         \<and> (example_db_after_first []) = at_row_lock example_race (before_rpc example_race example_db)
         \<and> Some (rp_id example_payment) \<in> set (map pay_transaction_id (payments (example_db_after_first [])))
         \<and> success (fst (handle_payment_captured example_race example_payment 3 1 example_db)) = False
         \<and> payments (snd (handle_payment_captured example_race example_payment 3 1 example_db)) = payments (example_db_after_first [])
         \<and> student_fees (snd (handle_payment_captured example_race example_payment 3 1 example_db))
             = student_fees (example_db_after_first [])"
proof -
  have h1: "single (filter (\<lambda>p. pay_transaction_id p = Some (rp_id example_payment))
                      (payments example_db)) = None"
    by (simp add: example_db_tables single_def)
  have h2: "rp_order_id example_payment = Some ''order_A''"
    by (simp add: example_payment_def)
  have h3: "single (filter (\<lambda>i. pi_razorpay_order_id i = ''order_A'')
                      (payment_intents example_db)) = Some example_intent"
    by (simp add: example_db_tables example_intent_def single_def)
  have h4: "process_payment_webhook_body ''service_role'' (at_row_lock example_race)
              (pi_id example_intent) (rp_id example_payment) (rp_amount example_payment) 3
              (before_rpc example_race example_db)
            = Inl (UniqueViolation ''idx_payments_razorpay_payment_id'',
                   example_db_after_first [])"
    using example_violation [of "[]"]
    by (simp add: example_db_logs_nil example_intent_def example_payment_def)
  show ?thesis by (rule C2_unique_violation_is_failed [OF h1 h2 h3 h4])
qed

text \<open>
  \<^bold>\<open>C5.\<close> The handler writes its first log row only after the intent and the
  secret have been found. A capture notification whose order matches no intent, and
  one with no payment entity to take the order from, are each answered with the error
  400 and leave the log table as it was, here empty.
\<close>

theorem C5_unresolved_notification_not_logged:
  "handleWebhook example_parse example_hmac alone
     \<lparr>raw_body = ''captured pay_2 order_X 4000000'', x_razorpay_signature = Some ''1e04''\<rparr>
     example_db
   = (errorResponse ''Payment intent not found'' 400, example_db, [])
   \<and> handleWebhook example_parse example_hmac alone
       \<lparr>raw_body = ''captured'', x_razorpay_signature = Some ''1e04''\<rparr> example_db
     = (errorResponse ''Invalid webhook payload'' 400, example_db, [])
   \<and> webhook_logs example_db = []"
  by (simp add: handleWebhook_def example_parse_def extract_order_id_def single_def
      example_db_tables example_intent_def req_text_example_unknown req_text_example_no_entity)

text \<open>
  \<^bold>\<open>C7.\<close> The calls the handler makes to the credential vault and to the
  signature verifier follow the resolution of the tenant. When the order of the
  notification resolves to no intent, there is no call at all and nothing is written.
  Every vault call asks for the webhook secret of the school of the intent that the
  order in the body resolves to, and every verification runs with the secret the
  vault returns for that school, after the vault call.
\<close>

theorem C7_tenant_resolved_before_secret:
  assumes run: "handleWebhook parse hmac ilv req db = (resp, db', calls)"
  shows "(\<forall>wp oid. parse (req_text (raw_body req)) = Some wp \<and> extract_order_id wp = Some oid
            \<and> single (filter (\<lambda>i. pi_razorpay_order_id i = oid) (payment_intents db)) = None
            \<longrightarrow> calls = [] \<and> db' = db)
       \<and> (\<forall>school key. VaultGet school key \<in> set calls \<longrightarrow>
             key = ''razorpay_webhook_secret''
           \<and> (\<exists>wp oid intent.
                 parse (req_text (raw_body req)) = Some wp \<and> extract_order_id wp = Some oid
               \<and> single (filter (\<lambda>i. pi_razorpay_order_id i = oid) (payment_intents db))
                   = Some intent
               \<and> school = pi_school_id intent))
       \<and> (\<forall>body sg secret. SignatureVerify body sg secret \<in> set calls \<longrightarrow>
             (\<exists>wp oid intent.
                 parse (req_text (raw_body req)) = Some wp \<and> extract_order_id wp = Some oid
               \<and> single (filter (\<lambda>i. pi_razorpay_order_id i = oid) (payment_intents db))
                   = Some intent
               \<and> get_school_config ''service_role'' db (pi_school_id intent)
                     ''razorpay_webhook_secret'' = Inr (Some secret)
               \<and> calls = [VaultGet (pi_school_id intent) ''razorpay_webhook_secret'',
                           SignatureVerify body sg secret]))"
proof (intro conjI allI impI)
  fix wp oid
  assume "parse (req_text (raw_body req)) = Some wp \<and> extract_order_id wp = Some oid
            \<and> single (filter (\<lambda>i. pi_razorpay_order_id i = oid) (payment_intents db)) = None"
  then have "snd (handleWebhook parse hmac ilv req db) = (db, [])"
    by (simp add: handleWebhook_unresolved)
  with run show "calls = []" and "db' = db" by simp_all
next
  fix school key
  assume "VaultGet school key \<in> set calls"
  with handleWebhook_calls_cases [OF run]
  show "key = ''razorpay_webhook_secret''" by auto
next
  fix school key
  assume "VaultGet school key \<in> set calls"
  with handleWebhook_calls_cases [OF run]
  show "\<exists>wp oid intent.
                 parse (req_text (raw_body req)) = Some wp \<and> extract_order_id wp = Some oid
               \<and> single (filter (\<lambda>i. pi_razorpay_order_id i = oid) (payment_intents db))
                   = Some intent
               \<and> school = pi_school_id intent" by auto
next
  fix body sg secret
  assume "SignatureVerify body sg secret \<in> set calls"
  with handleWebhook_calls_cases [OF run]
  show "\<exists>wp oid intent.
                 parse (req_text (raw_body req)) = Some wp \<and> extract_order_id wp = Some oid
               \<and> single (filter (\<lambda>i. pi_razorpay_order_id i = oid) (payment_intents db))
                   = Some intent
               \<and> get_school_config ''service_role'' db (pi_school_id intent)
                     ''razorpay_webhook_secret'' = Inr (Some secret)
               \<and> calls = [VaultGet (pi_school_id intent) ''razorpay_webhook_secret'',
                           SignatureVerify body sg secret]" by auto
qed

theorem C7_tenant_resolved_before_secret_witness:
  "\<exists>wp oid intent.
      example_parse (req_text (raw_body example_request)) = Some wp \<and> extract_order_id wp = Some oid
    \<and> single (filter (\<lambda>i. pi_razorpay_order_id i = oid) (payment_intents example_db))
        = Some intent
    \<and> get_school_config ''service_role'' example_db (pi_school_id intent)
          ''razorpay_webhook_secret'' = Inr (Some ''hell'')
    \<and> snd (snd (handleWebhook example_parse example_hmac alone example_request example_db))
        = [VaultGet (pi_school_id intent) ''razorpay_webhook_secret'',
           SignatureVerify ''captured pay_1 order_A 4000000'' ''1e04'' ''hell'']"
proof -
  have run: "handleWebhook example_parse example_hmac alone example_request example_db =
      (fst (handleWebhook example_parse example_hmac alone example_request example_db),
       fst (snd (handleWebhook example_parse example_hmac alone example_request example_db)),
       snd (snd (handleWebhook example_parse example_hmac alone example_request example_db)))"
    by simp
  have call: "SignatureVerify ''captured pay_1 order_A 4000000'' ''1e04'' ''hell''
                \<in> set (snd (snd (handleWebhook example_parse example_hmac alone example_request example_db)))"
    by (simp add: example_webhook_verified split: prod.splits)
  from C7_tenant_resolved_before_secret [OF run]
  have "\<forall>body sg secret.
          SignatureVerify body sg secret \<in> set (snd (snd (handleWebhook example_parse example_hmac alone example_request example_db))) \<longrightarrow>
             (\<exists>wp oid intent.
                 example_parse (req_text (raw_body example_request)) = Some wp
               \<and> extract_order_id wp = Some oid
               \<and> single (filter (\<lambda>i. pi_razorpay_order_id i = oid) (payment_intents example_db))
                   = Some intent
               \<and> get_school_config ''service_role'' example_db (pi_school_id intent)
                     ''razorpay_webhook_secret'' = Inr (Some secret)
               \<and> snd (snd (handleWebhook example_parse example_hmac alone example_request example_db))
                   = [VaultGet (pi_school_id intent) ''razorpay_webhook_secret'',
                      SignatureVerify body sg secret])"
    by (elim conjE)
  then show ?thesis using call by (elim allE impE)
qed

text \<open>
  \<^bold>\<open>C8.\<close> As stated the claim fails: the verifier is not run on the bytes that were
  received. The example notification sent with a byte-order mark in front is verified
  on the text without the mark, so the signature of the text without the mark is accepted
  and the notification applied, although under the same key that signature does not
  verify on the received bytes; and the signature that does verify on the received bytes
  is rejected.
\<close>

theorem C8_counterexample:
  "raw_body example_request_bom \<noteq> ''captured pay_1 order_A 4000000''
   \<and> snd (snd (handleWebhook example_parse example_hmac alone example_request_bom example_db))
     = [VaultGet 3 ''razorpay_webhook_secret'',
        SignatureVerify ''captured pay_1 order_A 4000000'' ''1e04'' ''hell'']
   \<and> fst (handleWebhook example_parse example_hmac alone example_request_bom example_db)
     = successResponse ''Payment processed successfully'' (Some (RowId 1))
   \<and> \<not> verifyWebhookSignature example_hmac (raw_body example_request_bom) ''1e04'' ''hell''
   \<and> verifyWebhookSignature example_hmac (raw_body example_request_bom) ''2104'' ''hell''
   \<and> fst (handleWebhook example_parse example_hmac alone
            (example_request_bom\<lparr>x_razorpay_signature := Some ''2104''\<rparr>) example_db)
     = errorResponse ''Invalid webhook signature'' 400"
proof -
  have same: "handleWebhook example_parse example_hmac alone example_request_bom example_db
      = handleWebhook example_parse example_hmac alone example_request example_db"
    by (rule handleWebhook_body_text [OF example_bom_body])
       (simp add: example_request_bom_def example_request_def)
  have differ: "raw_body example_request_bom \<noteq> ''captured pay_1 order_A 4000000''"
    by (simp add: example_request_bom_def byte_order_mark_def)
  have bad: "\<not> verifyWebhookSignature example_hmac ''captured pay_1 order_A 4000000''
                 ''2104'' ''hell''"
    by (simp add: verifyWebhookSignature_def example_hmac_def hex_encode_def hex_char_def)
  have rejected: "fst (handleWebhook example_parse example_hmac alone
            (example_request_bom\<lparr>x_razorpay_signature := Some ''2104''\<rparr>) example_db)
     = errorResponse ''Invalid webhook signature'' 400"
    unfolding handleWebhook_def
    by (simp add: example_parse_def example_request_bom_def req_text_bom extract_order_id_def
        example_payment_def example_db_tables example_intent_def single_def example_secret
        bad fresh_id_def set_log_failed_def)
  show ?thesis
    unfolding same example_webhook_fresh
    using differ example_verify_bom rejected by simp
qed


text \<open>
  \<^bold>\<open>C8, amended.\<close> The verifier accepts exactly when the keyed digest of the text it
  is given exists and the presented signature is that digest in hexadecimal: two
  lower-case hex digits for each byte, which the hex decoder reads back as the digest.
  When the digest cannot be computed it answers \<open>False\<close>. The handler runs the verifier
  on the text of the body as \<^verbatim>\<open>req.text()\<close> returns it, before and whatever the
  parsing, with the signature of the header; that text is the received bytes whenever
  these are well-formed UTF-8 that does not start with a byte-order mark. When the answer
  is \<open>False\<close> the notification is rejected with the error 400, logged as failed with an
  invalid signature, and the ledger is left as it was.
\<close>

theorem C8_signature_verifier:
  "(verifyWebhookSignature hmac payload signature secret \<longleftrightarrow>
      (\<exists>digest. hmac secret payload = Some digest
         \<and> length signature = 2 * length digest
         \<and> set signature \<subseteq> set ''0123456789abcdef''
         \<and> hex_decode signature = Inr digest))
   \<and> (hmac secret payload = None \<longrightarrow>
        \<not> verifyWebhookSignature hmac payload signature secret)
   \<and> (handleWebhook parse hmac ilv req db = (resp, db', calls)
        \<and> SignatureVerify body sg key \<in> set calls \<longrightarrow>
          body = req_text (raw_body req) \<and> x_razorpay_signature req = Some sg
        \<and> (valid_utf8 (raw_body req) \<and> take 3 (raw_body req) \<noteq> byte_order_mark \<longrightarrow>
              body = raw_body req)
        \<and> (\<not> verifyWebhookSignature hmac body sg key \<longrightarrow>
              resp = errorResponse ''Invalid webhook signature'' 400
            \<and> payments db' = payments db \<and> student_fees db' = student_fees db
            \<and> payment_intents db' = payment_intents db
            \<and> (\<exists>l \<in> set (webhook_logs db').
                   wl_signature_valid l = False \<and> wl_processing_status l = Failed)))"
proof (intro conjI)
  show "verifyWebhookSignature hmac payload signature secret \<longleftrightarrow>
      (\<exists>digest. hmac secret payload = Some digest
         \<and> length signature = 2 * length digest
         \<and> set signature \<subseteq> set ''0123456789abcdef''
         \<and> hex_decode signature = Inr digest)"
  proof
    assume "verifyWebhookSignature hmac payload signature secret"
    then obtain digest where d: "hmac secret payload = Some digest"
      and low: "set signature \<subseteq> set ''0123456789abcdef''"
      and dec: "hex_decode signature = Inr digest"
      unfolding verifyWebhookSignature_hex by blast
    from low dec have "signature = hex_encode digest"
      by (rule hex_decode_lower)
    then have "length signature = 2 * length digest"
      by (simp add: hex_encode_length)
    with d low dec show "\<exists>digest. hmac secret payload = Some digest
         \<and> length signature = 2 * length digest
         \<and> set signature \<subseteq> set ''0123456789abcdef''
         \<and> hex_decode signature = Inr digest"
      by blast
  next
    assume "\<exists>digest. hmac secret payload = Some digest
         \<and> length signature = 2 * length digest
         \<and> set signature \<subseteq> set ''0123456789abcdef''
         \<and> hex_decode signature = Inr digest"
    then show "verifyWebhookSignature hmac payload signature secret"
      unfolding verifyWebhookSignature_hex by blast
  qed
  show "hmac secret payload = None \<longrightarrow>
        \<not> verifyWebhookSignature hmac payload signature secret"
    by (simp add: verifyWebhookSignature_def)
  show "handleWebhook parse hmac ilv req db = (resp, db', calls)
        \<and> SignatureVerify body sg key \<in> set calls \<longrightarrow>
          body = req_text (raw_body req) \<and> x_razorpay_signature req = Some sg
        \<and> (valid_utf8 (raw_body req) \<and> take 3 (raw_body req) \<noteq> byte_order_mark \<longrightarrow>
              body = raw_body req)
        \<and> (\<not> verifyWebhookSignature hmac body sg key \<longrightarrow>
              resp = errorResponse ''Invalid webhook signature'' 400
            \<and> payments db' = payments db \<and> student_fees db' = student_fees db
            \<and> payment_intents db' = payment_intents db
            \<and> (\<exists>l \<in> set (webhook_logs db').
                   wl_signature_valid l = False \<and> wl_processing_status l = Failed))"
  proof (intro impI, elim conjE)
    assume run: "handleWebhook parse hmac ilv req db = (resp, db', calls)"
      and call: "SignatureVerify body sg key \<in> set calls"
    have given: "body = req_text (raw_body req) \<and> x_razorpay_signature req = Some sg"
      using run call by (rule handleWebhook_verifies_body_text)
    have same: "body = raw_body req"
      if "valid_utf8 (raw_body req) \<and> take 3 (raw_body req) \<noteq> byte_order_mark"
      using that given by (simp add: req_text_valid)
    have rej: "resp = errorResponse ''Invalid webhook signature'' 400
            \<and> payments db' = payments db \<and> student_fees db' = student_fees db
            \<and> payment_intents db' = payment_intents db
            \<and> (\<exists>l \<in> set (webhook_logs db').
                   wl_signature_valid l = False \<and> wl_processing_status l = Failed)"
      if "\<not> verifyWebhookSignature hmac body sg key"
      using run call that by (rule handleWebhook_invalid_signature)
    from given same rej
    show "body = req_text (raw_body req) \<and> x_razorpay_signature req = Some sg
        \<and> (valid_utf8 (raw_body req) \<and> take 3 (raw_body req) \<noteq> byte_order_mark \<longrightarrow>
              body = raw_body req)
        \<and> (\<not> verifyWebhookSignature hmac body sg key \<longrightarrow>
              resp = errorResponse ''Invalid webhook signature'' 400
            \<and> payments db' = payments db \<and> student_fees db' = student_fees db
            \<and> payment_intents db' = payment_intents db
            \<and> (\<exists>l \<in> set (webhook_logs db').
                   wl_signature_valid l = False \<and> wl_processing_status l = Failed))"
      by blast
  qed
qed

theorem C8_signature_verifier_witness:
  "(\<exists>digest. example_hmac ''hell'' ''captured pay_1 order_A 4000000'' = Some digest
      \<and> length ''1e04'' = 2 * length digest
      \<and> hex_decode ''1e04'' = Inr digest)
   \<and> \<not> verifyWebhookSignature example_hmac ''x'' ''y'' []
   \<and> raw_body (example_request\<lparr>x_razorpay_signature := Some ''1e05''\<rparr>) = ''captured pay_1 order_A 4000000''
   \<and> fst (handleWebhook example_parse example_hmac alone
            (example_request\<lparr>x_razorpay_signature := Some ''1e05''\<rparr>) example_db) = errorResponse ''Invalid webhook signature'' 400
   \<and> payments (fst (snd (handleWebhook example_parse example_hmac alone
            (example_request\<lparr>x_razorpay_signature := Some ''1e05''\<rparr>) example_db))) = payments example_db
   \<and> student_fees (fst (snd (handleWebhook example_parse example_hmac alone
            (example_request\<lparr>x_razorpay_signature := Some ''1e05''\<rparr>) example_db))) = student_fees example_db"
proof -
  note accepted = C8_signature_verifier
    [where hmac = example_hmac and payload = "''captured pay_1 order_A 4000000''"
       and signature = "''1e04''" and secret = "''hell''"
       and parse = example_parse and ilv = alone
       and req = "(example_request\<lparr>x_razorpay_signature := Some ''1e05''\<rparr>)"
       and db = example_db
       and resp = "fst (handleWebhook example_parse example_hmac alone
            (example_request\<lparr>x_razorpay_signature := Some ''1e05''\<rparr>) example_db)"
       and db' = "fst (snd (handleWebhook example_parse example_hmac alone
            (example_request\<lparr>x_razorpay_signature := Some ''1e05''\<rparr>) example_db))"
       and calls = "snd (snd (handleWebhook example_parse example_hmac alone
            (example_request\<lparr>x_razorpay_signature := Some ''1e05''\<rparr>) example_db))"
       and body = "''captured pay_1 order_A 4000000''" and sg = "''1e05''"
       and key = "''hell''"]
  note failing = C8_signature_verifier
    [where hmac = example_hmac and payload = "''x''" and signature = "''y''" and secret = "[]"
       and parse = example_parse and ilv = alone
       and req = "(example_request\<lparr>x_razorpay_signature := Some ''1e05''\<rparr>)"
       and db = example_db
       and resp = "fst (handleWebhook example_parse example_hmac alone
            (example_request\<lparr>x_razorpay_signature := Some ''1e05''\<rparr>) example_db)"
       and db' = "fst (snd (handleWebhook example_parse example_hmac alone
            (example_request\<lparr>x_razorpay_signature := Some ''1e05''\<rparr>) example_db))"
       and calls = "snd (snd (handleWebhook example_parse example_hmac alone
            (example_request\<lparr>x_razorpay_signature := Some ''1e05''\<rparr>) example_db))"
       and body = "''captured pay_1 order_A 4000000''" and sg = "''1e05''"
       and key = "''hell''"]
  have none: "example_hmac [] ''x'' = None"
    by (simp add: example_hmac_def)
  have run: "handleWebhook example_parse example_hmac alone
            (example_request\<lparr>x_razorpay_signature := Some ''1e05''\<rparr>) example_db
      = (fst (handleWebhook example_parse example_hmac alone
            (example_request\<lparr>x_razorpay_signature := Some ''1e05''\<rparr>) example_db), fst (snd (handleWebhook example_parse example_hmac alone
            (example_request\<lparr>x_razorpay_signature := Some ''1e05''\<rparr>) example_db)), snd (snd (handleWebhook example_parse example_hmac alone
            (example_request\<lparr>x_razorpay_signature := Some ''1e05''\<rparr>) example_db)))"
    by simp
  have call: "SignatureVerify ''captured pay_1 order_A 4000000'' ''1e05'' ''hell''
                \<in> set (snd (snd (handleWebhook example_parse example_hmac alone
            (example_request\<lparr>x_razorpay_signature := Some ''1e05''\<rparr>) example_db)))"
    by (simp add: example_webhook_tampered)
  have wellformed: "valid_utf8 (raw_body (example_request\<lparr>x_razorpay_signature := Some ''1e05''\<rparr>))
      \<and> take 3 (raw_body (example_request\<lparr>x_razorpay_signature := Some ''1e05''\<rparr>)) \<noteq> byte_order_mark"
    using example_body_valid by (simp add: example_request_def)
  note hex = accepted [THEN conjunct1, THEN iffD1, OF example_verify]
  from hex have first:
    "\<exists>digest. example_hmac ''hell'' ''captured pay_1 order_A 4000000'' = Some digest
      \<and> length ''1e04'' = 2 * length digest
      \<and> hex_decode ''1e04'' = Inr digest"
    by (elim exE conjE) (intro exI conjI)
  note internal = failing [THEN conjunct2, THEN conjunct1]
  from internal none have second: "\<not> verifyWebhookSignature example_hmac ''x'' ''y'' []"
    by (rule mp)
  note handled = mp [OF accepted [THEN conjunct2, THEN conjunct2] conjI [OF run call]]
  note same = mp [OF handled [THEN conjunct2, THEN conjunct2, THEN conjunct1] wellformed]
  note rejected = mp [OF handled [THEN conjunct2, THEN conjunct2, THEN conjunct2]
                        example_verify_tampered]
  from same [symmetric] rejected
  have third: "raw_body (example_request\<lparr>x_razorpay_signature := Some ''1e05''\<rparr>) = ''captured pay_1 order_A 4000000''
      \<and> fst (handleWebhook example_parse example_hmac alone
            (example_request\<lparr>x_razorpay_signature := Some ''1e05''\<rparr>) example_db) = errorResponse ''Invalid webhook signature'' 400
      \<and> payments (fst (snd (handleWebhook example_parse example_hmac alone
            (example_request\<lparr>x_razorpay_signature := Some ''1e05''\<rparr>) example_db))) = payments example_db
      \<and> student_fees (fst (snd (handleWebhook example_parse example_hmac alone
            (example_request\<lparr>x_razorpay_signature := Some ''1e05''\<rparr>) example_db))) = student_fees example_db"
    by (elim conjE) (intro conjI)
  from second third have "\<not> verifyWebhookSignature example_hmac ''x'' ''y'' []
      \<and> raw_body (example_request\<lparr>x_razorpay_signature := Some ''1e05''\<rparr>) = ''captured pay_1 order_A 4000000''
      \<and> fst (handleWebhook example_parse example_hmac alone
            (example_request\<lparr>x_razorpay_signature := Some ''1e05''\<rparr>) example_db) = errorResponse ''Invalid webhook signature'' 400
      \<and> payments (fst (snd (handleWebhook example_parse example_hmac alone
            (example_request\<lparr>x_razorpay_signature := Some ''1e05''\<rparr>) example_db))) = payments example_db
      \<and> student_fees (fst (snd (handleWebhook example_parse example_hmac alone
            (example_request\<lparr>x_razorpay_signature := Some ''1e05''\<rparr>) example_db))) = student_fees example_db"
    by (rule conjI)
  with first show ?thesis
    by (rule conjI)
qed

text \<open>
  \<^bold>\<open>C1.\<close> Deliveries of one payment, processed one after another. Each delivery
  is a capture notification of the transaction \<open>tid\<close> that passes the signature check
  on the ledger as it is at the start; the transaction is not yet recorded, and the
  first delivery's fee record can take its amount. Then the first delivery is applied
  and every later one is answered with the success \<open>Payment already processed\<close>; at
  the end exactly one payment row carries \<open>tid\<close> and the fee records are those of the
  start with the captured amount added once to the balance of the order's fee record.
\<close>

theorem C1_exactly_once:
  assumes acc: "\<forall>r \<in> set (req # reqs). capture_accepted parse hmac db tid r"
      and pay: "parse (req_text (raw_body req))
                  = Some \<lparr>wp_event = ''payment.captured'', wp_payment_entity = Some pay\<rparr>"
      and oid: "rp_order_id pay = Some oid"
      and intent: "single (filter (\<lambda>i. pi_razorpay_order_id i = oid) (payment_intents db))
                     = Some intent"
      and keys: "distinct (map pi_id (payment_intents db))"
      and fresh: "Some tid \<notin> set (map pay_transaction_id (payments db))"
      and fee: "find (\<lambda>f. sf_id f = pi_student_fee_id intent \<and> sf_school_id f = pi_school_id intent)
                  (student_fees db) = Some fee"
      and paid: "sf_amount_paid fee = Some paid"
      and fits: "fits_numeric_10_2 (paid + rp_amount pay)" "fits_numeric_10_2 (rp_amount pay)"
  shows "\<exists>pid db'.
           process_notifications parse hmac (req # reqs) db
             = (successResponse ''Payment processed successfully'' (Some (RowId pid))
                  # replicate (length reqs) (successResponse ''Payment already processed'' None),
                db')
         \<and> length (filter (\<lambda>p. pay_transaction_id p = Some tid) (payments db')) = 1
         \<and> student_fees db' =
              map (\<lambda>f. if sf_id f = sf_id fee
                        then f\<lparr>sf_amount_paid := Some (paid + rp_amount pay),
                               sf_status := new_status (paid + rp_amount pay) (sf_total_due fee)\<rparr>
                        else f) (student_fees db)"
proof -
  from acc have "capture_accepted parse hmac db tid req" by simp
  then obtain sg pay' oid' intent' secret where
    a': "parse (req_text (raw_body req))
          = Some \<lparr>wp_event = ''payment.captured'', wp_payment_entity = Some pay'\<rparr>"
       "x_razorpay_signature req = Some sg" "sg \<noteq> []"
       "rp_id pay' = tid" "rp_order_id pay' = Some oid'" "oid' \<noteq> []"
       "single (filter (\<lambda>i. pi_razorpay_order_id i = oid') (payment_intents db)) = Some intent'"
       "get_school_config ''service_role'' db (pi_school_id intent') ''razorpay_webhook_secret''
          = Inr (Some secret)"
       "secret \<noteq> []"
       "verifyWebhookSignature hmac (req_text (raw_body req)) sg secret"
    unfolding capture_accepted_def by blast
  from a'(1) pay have same_pay: "pay' = pay" by simp
  with a'(5) oid have same_oid: "oid' = oid" by simp
  with a'(7) intent have same_intent: "intent' = intent" by simp
  have tid: "rp_id pay = tid" using a'(4) same_pay by simp
  have a: "parse (req_text (raw_body req))
             = Some \<lparr>wp_event = ''payment.captured'', wp_payment_entity = Some pay\<rparr>"
        "x_razorpay_signature req = Some sg" "sg \<noteq> []"
        "rp_order_id pay = Some oid" "oid \<noteq> []"
        "single (filter (\<lambda>i. pi_razorpay_order_id i = oid) (payment_intents db)) = Some intent"
        "get_school_config ''service_role'' db (pi_school_id intent) ''razorpay_webhook_secret''
             = Inr (Some secret)"
        "secret \<noteq> []"
        "verifyWebhookSignature hmac (req_text (raw_body req)) sg secret"
    using a' same_pay same_oid same_intent by simp_all
  have fresh': "Some (rp_id pay) \<notin> set (map pay_transaction_id (payments db))"
    using fresh tid by simp
  have fee_id: "sf_id fee = pi_student_fee_id intent"
    using fee by (auto simp: find_Some_iff)
  obtain pid db1 calls row where
    run: "handleWebhook parse hmac alone req db
            = (successResponse ''Payment processed successfully'' (Some (RowId pid)), db1, calls)"
    and pays: "payments db1 = payments db @ [row]"
    and row: "pay_transaction_id row = Some (rp_id pay)"
    and fees: "student_fees db1 =
              map (\<lambda>f. if sf_id f = pi_student_fee_id intent
                        then f\<lparr>sf_amount_paid := Some (paid + rp_amount pay),
                               sf_status := new_status (paid + rp_amount pay) (sf_total_due fee)\<rparr>
                        else f) (student_fees db)"
    and ints: "payment_intents db1 =
              map (\<lambda>i. if pi_id i = pi_id intent
                        then i\<lparr>pi_status := IntentPaid,
                               pi_razorpay_payment_id := Some (rp_id pay),
                               pi_webhook_verified := True\<rparr>
                        else i) (payment_intents db)"
    and conf: "school_configurations db1 = school_configurations db"
    using handleWebhook_first_apply
      [where parse = parse and hmac = hmac and req = req, OF a keys fresh' fee paid fits]
    by blast
  have only: "filter (\<lambda>p. pay_transaction_id p = Some tid) (payments db1) = [row]"
    using filter_absent [OF fresh] row tid by (simp add: pays)
  then have dup1: "single (filter (\<lambda>p. pay_transaction_id p = Some tid) (payments db1)) = Some row"
    by (simp add: single_def)
  have acc1: "\<forall>r \<in> set reqs. capture_accepted parse hmac db1 tid r"
  proof
    fix r assume "r \<in> set reqs"
    with acc have "capture_accepted parse hmac db tid r" by simp
    with ints conf show "capture_accepted parse hmac db1 tid r"
      by (rule capture_accepted_after_paid)
  qed
  from process_duplicates [OF acc1 dup1] obtain db' where
    rest: "process_notifications parse hmac reqs db1
             = (replicate (length reqs) (successResponse ''Payment already processed'' None), db')"
    and same: "payments db' = payments db1" "student_fees db' = student_fees db1"
    by blast
  have all: "process_notifications parse hmac (req # reqs) db
             = (successResponse ''Payment processed successfully'' (Some (RowId pid))
                  # replicate (length reqs) (successResponse ''Payment already processed'' None),
                db')"
    by (simp add: run rest)
  have one: "length (filter (\<lambda>p. pay_transaction_id p = Some tid) (payments db')) = 1"
    by (simp add: same only)
  have ledger: "student_fees db' =
              map (\<lambda>f. if sf_id f = sf_id fee
                        then f\<lparr>sf_amount_paid := Some (paid + rp_amount pay),
                               sf_status := new_status (paid + rp_amount pay) (sf_total_due fee)\<rparr>
                        else f) (student_fees db)"
    by (simp add: same fees fee_id)
  from all one ledger show ?thesis by blast
qed

theorem C1_exactly_once_witness:
  "\<exists>pid db'.
     process_notifications example_parse example_hmac
       [example_request, example_request, example_request] example_db
       = (successResponse ''Payment processed successfully'' (Some (RowId pid))
            # replicate 2 (successResponse ''Payment already processed'' None),
          db')
   \<and> length (filter (\<lambda>p. pay_transaction_id p = Some ''pay_1'') (payments db')) = 1
   \<and> student_fees db' =
        [\<lparr>sf_id = 7, sf_school_id = 3, sf_total_due = 8200000,
          sf_amount_paid = Some 4000000, sf_status = PartiallyPaid\<rparr>]"
proof -
  have parsed: "example_parse (req_text (raw_body example_request))
                  = Some \<lparr>wp_event = ''payment.captured'',
                           wp_payment_entity = Some example_payment\<rparr>"
    by (simp add: example_parse_def example_request_def req_text_example)
  have h_oid: "rp_order_id example_payment = Some ''order_A''"
    by (simp add: example_payment_def)
  have h_intent: "single (filter (\<lambda>i. pi_razorpay_order_id i = ''order_A'')
                            (payment_intents example_db)) = Some example_intent"
    by (simp add: example_db_tables example_intent_def single_def)
  have accepted: "capture_accepted example_parse example_hmac example_db ''pay_1'' example_request"
    unfolding capture_accepted_def
    apply (rule exI [of _ "''1e04''"], rule exI [of _ example_payment])
    apply (rule exI [of _ "''order_A''"], rule exI [of _ example_intent])
    apply (rule exI [of _ "''hell''"])
    apply (intro conjI)
    subgoal by (rule parsed)
    subgoal by (simp add: example_request_def req_text_example)
    subgoal by simp
    subgoal by (simp add: example_payment_def)
    subgoal by (rule h_oid)
    subgoal by simp
    subgoal by (rule h_intent)
    subgoal using example_secret by (simp add: example_intent_def)
    subgoal by simp
    subgoal using example_verify by (simp add: example_request_def req_text_example)
    done
  have h_acc: "\<forall>r \<in> set (example_request # [example_request, example_request]).
                 capture_accepted example_parse example_hmac example_db ''pay_1'' r"
    using accepted by simp
  have h_keys: "distinct (map pi_id (payment_intents example_db))"
    by (simp add: example_db_tables)
  have h_fresh: "Some ''pay_1'' \<notin> set (map pay_transaction_id (payments example_db))"
    by (simp add: example_db_tables)
  have h_fee: "find (\<lambda>f. sf_id f = pi_student_fee_id example_intent
                        \<and> sf_school_id f = pi_school_id example_intent)
                 (student_fees example_db) = Some example_fee"
    by (simp add: example_db_tables example_intent_def example_fee_def)
  have h_paid: "sf_amount_paid example_fee = Some 0"
    by (simp add: example_fee_def)
  have h_fits: "fits_numeric_10_2 (0 + rp_amount example_payment)"
    "fits_numeric_10_2 (rp_amount example_payment)"
    by (simp_all add: fits_numeric_10_2_def example_payment_def)
  from C1_exactly_once [OF h_acc parsed h_oid h_intent h_keys h_fresh h_fee h_paid h_fits]
  obtain pid db' where
    run: "process_notifications example_parse example_hmac
            (example_request # [example_request, example_request]) example_db
          = (successResponse ''Payment processed successfully'' (Some (RowId pid))
               # replicate (length [example_request, example_request])
                   (successResponse ''Payment already processed'' None),
             db')"
    and one: "length (filter (\<lambda>p. pay_transaction_id p = Some ''pay_1'') (payments db')) = 1"
    and fees: "student_fees db' =
              map (\<lambda>f. if sf_id f = sf_id example_fee
                        then f\<lparr>sf_amount_paid := Some (0 + rp_amount example_payment),
                               sf_status := new_status (0 + rp_amount example_payment)
                                              (sf_total_due example_fee)\<rparr>
                        else f) (student_fees example_db)"
    by blast
  have fees': "student_fees db' =
        [\<lparr>sf_id = 7, sf_school_id = 3, sf_total_due = 8200000,
          sf_amount_paid = Some 4000000, sf_status = PartiallyPaid\<rparr>]"
    unfolding fees
    by (simp add: example_db_tables example_fee_def example_payment_def new_status_def)
  have run': "process_notifications example_parse example_hmac
       [example_request, example_request, example_request] example_db
       = (successResponse ''Payment processed successfully'' (Some (RowId pid))
            # replicate 2 (successResponse ''Payment already processed'' None),
          db')"
    using run by (simp add: numeral_2_eq_2)
  from run' one fees' show ?thesis by blast
qed

text \<open>
  \<^bold>\<open>C3.\<close> The direct verification entry point does not apply the pipeline of the
  webhook path. Whatever the request and the ledger, it leaves the ledger as it found
  it: every path through it returns an error before any write, the last one because the
  call of the undefined \<^verbatim>\<open>verifyRazorpaySignature\<close> throws. For the example order
  it answers 500, while the webhook path applied to the capture of the same order and
  payment inserts the payment, credits the fee record, marks the intent paid and logs
  the outcome.
\<close>

theorem C3_direct_path_applies_nothing:
  "(\<forall>rq db. snd (handleDirectVerification rq db) = db)
   \<and> handleDirectVerification example_direct_request example_db
     = (errorResponse ''Payment verification failed: verifyRazorpaySignature is not defined''
          500,
        example_db)
   \<and> fst (handleWebhook example_parse example_hmac alone example_request example_db)
     = successResponse ''Payment processed successfully'' (Some (RowId 1))
   \<and> student_fees (fst (snd (handleWebhook example_parse example_hmac alone example_request
                                example_db)))
     = [example_fee\<lparr>sf_amount_paid := Some 4000000, sf_status := PartiallyPaid\<rparr>]
   \<and> student_fees example_db = [example_fee]
   \<and> map pay_transaction_id
        (payments (fst (snd (handleWebhook example_parse example_hmac alone example_request
                               example_db))))
     = [Some ''pay_1'']
   \<and> payments example_db = []
   \<and> map pi_status
        (payment_intents (fst (snd (handleWebhook example_parse example_hmac alone
                                      example_request example_db))))
     = [IntentPaid]
   \<and> map pi_status (payment_intents example_db) = [Created]"
  unfolding example_webhook_fresh example_direct
  by (simp add: handleDirectVerification_writes_nothing set_log_status_def
      example_db_after_first_def example_db_tables example_intent_def example_fee_def)

text \<open>
  \<^bold>\<open>C10.\<close> The envelope does not return every value. The cast of the value to
  \<^verbatim>\<open>bytea\<close> reads backslashes as escapes, so the four characters \<^verbatim>\<open>\x41\<close>
  are encrypted as the one byte \<open>A\<close> and decrypted to \<open>A\<close>, and a value with a
  backslash that starts no escape, such as \<^verbatim>\<open>a\b\<close>, cannot be encrypted at all.
\<close>

theorem C10_backslash_value_not_restored:
  "encrypt_config_value [backslash, CHR ''x'', CHR ''4'', CHR ''1''] = Inr ''ENCRYPTED:QQ==''
   \<and> decrypt_config_value ''ENCRYPTED:QQ=='' = Inr ''A''
   \<and> [backslash, CHR ''x'', CHR ''4'', CHR ''1''] \<noteq> ''A''
   \<and> encrypt_config_value [CHR ''a'', backslash, CHR ''b''] = Inl InvalidByteaSyntax"
  by (simp add: encrypt_config_value_def decrypt_config_value_def example_hex_cast
      example_escape_cast example_encode_A example_decode_A convert_from_utf8_def in_range_def)



end
